theory Spec2Isabelle
  imports Complex_Main "HOL-Library.Sublist"
begin

section \<open>Data model (types/GameTypes.ts)\<close>

text \<open>
  Every TypeScript \<open>number\<close> that carries a coordinate, a duration, a health or a
  score is a \<^typ>\<open>real\<close>: the arithmetic of the source is read over the reals, without
  the rounding of IEEE doubles. The private counters of the enemy spawner, which are only
  ever set to integer literals and incremented, are \<^typ>\<open>int\<close>.

  Record fields are global constants in HOL, so the fields \<open>x\<close>, \<open>y\<close> of
  \<open>Position\<close> and \<open>Velocity\<close> are \<open>px\<close>, \<open>py\<close>, \<open>vx\<close>, \<open>vy\<close>, the
  field \<open>id\<close> is \<open>ident\<close> and the field \<open>size\<close> is \<open>extent\<close>. Where two
  interfaces share a field name, the later one carries a prefix: \<open>bulletDamage\<close>,
  \<open>gsScore\<close> and \<open>gsPowerUps\<close> of the game state, the fields of \<open>Explosion\<close>
  and of \<open>PowerUpEffect\<close>. The optional animation properties of \<open>GameObject\<close>
  (\<open>animationTime\<close>, \<open>scale\<close>, \<open>opacity\<close>, \<open>pulsePhase\<close>) belong to the renderer;
  the engine neither reads nor writes them and they are left out.

  An object of the source is a record value here; the collections of the game state hold
  the objects themselves. The engine's own constructors return fresh objects, and the
  model takes the entries of a collection to be distinct objects.
\<close>

record Position =
  px :: real
  py :: real

record Velocity =
  vx :: real
  vy :: real

record Size =
  width :: real
  height :: real

text \<open>
  Identifiers are strings. The engine builds its own as the template
  \<open>prefix_${Date.now()}_${Math.random()}\<close>; \<open>Generated\<close> keeps the three parts
  instead of rendering the two numbers as text.
\<close>

datatype Ident = Named string | Generated string real real

datatype WeaponType = BASIC_WEAPON | RAPID_FIRE | SPREAD_SHOT | LASER_WEAPON | MISSILE

datatype EnemyType = BASIC | FAST | HEAVY | BOSS

datatype BulletType =
  PLAYER_BASIC | PLAYER_RAPID | PLAYER_LASER | ENEMY_BASIC | ENEMY_HEAVY
  | NORMAL | LASER | PLASMA

datatype PowerUpType = HEALTH | WEAPON_UPGRADE | SHIELD | SPEED_BOOST | SCORE_MULTIPLIER

datatype AttackPattern = STRAIGHT | ZIGZAG | CIRCULAR | HOMING

datatype GameStatus = MENU | PLAYING | PAUSED | GAME_OVER | VICTORY | WAITING_FOR_PLAYERS

datatype DifficultyLevel = EASY | MEDIUM | HARD | EXPERT

text \<open>The string value of each member of the \<open>BulletType\<close> enum.\<close>

fun bulletTypeValue :: "BulletType \<Rightarrow> string" where
  "bulletTypeValue PLAYER_BASIC = ''playerBasic''"
| "bulletTypeValue PLAYER_RAPID = ''playerRapid''"
| "bulletTypeValue PLAYER_LASER = ''playerLaser''"
| "bulletTypeValue ENEMY_BASIC = ''enemyBasic''"
| "bulletTypeValue ENEMY_HEAVY = ''enemyHeavy''"
| "bulletTypeValue NORMAL = ''normal''"
| "bulletTypeValue LASER = ''laser''"
| "bulletTypeValue PLASMA = ''plasma''"

text \<open>\<open>s.startsWith(p)\<close>.\<close>

definition startsWith :: "string \<Rightarrow> string \<Rightarrow> bool" where
  "startsWith s p = (take (length p) s = p)"

record GameObject =
  ident :: Ident
  position :: Position
  velocity :: Velocity
  extent :: Size
  rotation :: real
  health :: real
  maxHealth :: real
  isActive :: bool

record PowerUpEffect =
  effectType :: PowerUpType
  effectValue :: real
  effectDuration :: real

record PowerUp = GameObject +
  powerUpType :: PowerUpType
  duration :: real
  effect :: PowerUpEffect

record Player = GameObject +
  playerId :: Ident
  playerName :: string
  score :: real
  lives :: real
  weaponType :: WeaponType
  powerUps :: "PowerUp list"
  isLocalPlayer :: bool

text \<open>
  \<open>lastShotTime\<close> is not declared by the \<open>Enemy\<close> interface: the physics engine
  adds it to the object on the enemy's first tick, so it is \<open>None\<close> (undefined) until then.
\<close>

record Enemy = GameObject +
  enemyType :: EnemyType
  damage :: real
  points :: real
  attackPattern :: AttackPattern
  lastShotTime :: "real option"

text \<open>
  \<open>isPlayerBullet\<close> is missing from the bullets that the physics engine creates for
  enemies, hence the option.
\<close>

record Bullet = GameObject +
  bulletDamage :: real
  ownerId :: Ident
  bulletType :: BulletType
  isPlayerBullet :: "bool option"

record Explosion =
  explosionId :: Ident
  explosionPosition :: Position
  explosionSize :: Size
  explosionDuration :: real
  currentFrame :: real
  animationProgress :: real

record GameState =
  players :: "Player list"
  enemies :: "Enemy list"
  bullets :: "Bullet list"
  gsPowerUps :: "PowerUp list"
  explosions :: "Explosion list"
  gsScore :: real
  level :: real
  wave :: real
  enemiesKilled :: real
  powerUpsCollected :: real
  accuracy :: real
  gameStatus :: GameStatus
  isPaused :: bool
  timeElapsed :: real
  isMultiplayer :: bool

record GameConfig =
  screenWidth :: real
  screenHeight :: real
  playerSpeed :: real
  bulletSpeed :: real
  enemySpeed :: real
  spawnRate :: real
  difficulty :: DifficultyLevel

section \<open>The host: clock and random source\<close>

text \<open>
  \<open>Date.now()\<close> and \<open>Math.random()\<close> are the two reads of the outside world. The
  world is a stream of clock readings and a stream of random reals, each with the number
  of reads made so far; every call consumes one element. \<open>Math.random()\<close> returns a
  number in \<open>[0, 1)\<close>: the fractional part of the stream's element, so that every stream
  is admissible and every value of \<open>[0, 1)\<close> can be drawn.
\<close>

record World =
  clock :: "nat \<Rightarrow> real"
  clockReads :: nat
  entropy :: "nat \<Rightarrow> real"
  draws :: nat

definition Date_now :: "World \<Rightarrow> real \<times> World" where
  "Date_now w = (clock w (clockReads w), w\<lparr>clockReads := Suc (clockReads w)\<rparr>)"

definition Math_random :: "World \<Rightarrow> real \<times> World" where
  "Math_random w = (frac (entropy w (draws w)), w\<lparr>draws := Suc (draws w)\<rparr>)"

text \<open>The template \<open>prefix_${Date.now()}_${Math.random()}\<close>.\<close>

definition freshId :: "string \<Rightarrow> World \<Rightarrow> Ident \<times> World" where
  "freshId pre w =
     (let (t, w1) = Date_now w; (r, w2) = Math_random w1
      in (Generated pre t r, w2))"

section \<open>Collision detection (engine/CollisionDetection.ts)\<close>

definition checkAABBCollision :: "Position \<Rightarrow> Size \<Rightarrow> Position \<Rightarrow> Size \<Rightarrow> bool" where
  "checkAABBCollision pos1 size1 pos2 size2 =
     (let left1 = px pos1 - width size1 / 2;
          right1 = px pos1 + width size1 / 2;
          top1 = py pos1 - height size1 / 2;
          bottom1 = py pos1 + height size1 / 2;
          left2 = px pos2 - width size2 / 2;
          right2 = px pos2 + width size2 / 2;
          top2 = py pos2 - height size2 / 2;
          bottom2 = py pos2 + height size2 / 2
      in left1 < right2 \<and> right1 > left2 \<and> top1 < bottom2 \<and> bottom1 > top2)"

definition checkCollision ::
  "'a GameObject_scheme \<Rightarrow> 'b GameObject_scheme \<Rightarrow> bool" where
  "checkCollision obj1 obj2 =
     (if \<not> isActive obj1 \<or> \<not> isActive obj2 then False
      else checkAABBCollision (position obj1) (extent obj1) (position obj2) (extent obj2))"

text \<open>
  The bounding box of the specification: centred on the position, with the size as its
  full extent on each axis.
\<close>

definition boxLeft :: "'a GameObject_scheme \<Rightarrow> real" where
  "boxLeft obj = px (position obj) - width (extent obj) / 2"

definition boxRight :: "'a GameObject_scheme \<Rightarrow> real" where
  "boxRight obj = px (position obj) + width (extent obj) / 2"

definition boxTop :: "'a GameObject_scheme \<Rightarrow> real" where
  "boxTop obj = py (position obj) - height (extent obj) / 2"

definition boxBottom :: "'a GameObject_scheme \<Rightarrow> real" where
  "boxBottom obj = py (position obj) + height (extent obj) / 2"

text \<open>
  Strict overlap on both axes, in the words of the specification:
  \<open>left1 < right2 && right1 > left2 && top1 < bottom2 && bottom1 > top2\<close>.
\<close>

definition strictOverlap :: "'a GameObject_scheme \<Rightarrow> 'b GameObject_scheme \<Rightarrow> bool" where
  "strictOverlap a b =
     (boxLeft a < boxRight b \<and> boxRight a > boxLeft b
      \<and> boxTop a < boxBottom b \<and> boxBottom a > boxTop b)"

text \<open>Two boxes touch when an edge of one lies exactly on the facing edge of the other.\<close>

definition edgesTouch :: "'a GameObject_scheme \<Rightarrow> 'b GameObject_scheme \<Rightarrow> bool" where
  "edgesTouch a b =
     (boxRight a = boxLeft b \<or> boxLeft a = boxRight b
      \<or> boxBottom a = boxTop b \<or> boxTop a = boxBottom b)"

section \<open>Physics (engine/PhysicsEngine.ts)\<close>

text \<open>
  \<open>Math.atan2(y, x)\<close> over the reals: the angle of the point \<open>(x, y)\<close> in
  \<open>(-\<pi>, \<pi>]\<close>, and \<open>0\<close> at the origin.
\<close>

definition atan2 :: "real \<Rightarrow> real \<Rightarrow> real" where
  "atan2 y x =
     (if 0 < x then arctan (y / x)
      else if x < 0 \<and> 0 \<le> y then arctan (y / x) + pi
      else if x < 0 then arctan (y / x) - pi
      else if 0 < y then pi / 2
      else if y < 0 then - (pi / 2)
      else 0)"

definition updateGameObject :: "'a GameObject_scheme \<Rightarrow> real \<Rightarrow> 'a GameObject_scheme" where
  "updateGameObject obj deltaTime =
     (let obj1 = obj\<lparr>position := (position obj)
                   \<lparr>px := px (position obj) + vx (velocity obj) * deltaTime,
                    py := py (position obj) + vy (velocity obj) * deltaTime\<rparr>\<rparr>
      in if vx (velocity obj1) \<noteq> 0 \<or> vy (velocity obj1) \<noteq> 0
         then obj1\<lparr>rotation := atan2 (vy (velocity obj1)) (vx (velocity obj1)) + pi / 2\<rparr>
         else obj1)"

definition constrainX :: "GameConfig \<Rightarrow> 'a GameObject_scheme \<Rightarrow> 'a GameObject_scheme" where
  "constrainX cfg obj =
     (let halfWidth = width (extent obj) / 2
      in if px (position obj) - halfWidth < 0
         then obj\<lparr>position := (position obj)\<lparr>px := halfWidth\<rparr>,
                  velocity := (velocity obj)\<lparr>vx := 0\<rparr>\<rparr>
         else if px (position obj) + halfWidth > screenWidth cfg
         then obj\<lparr>position := (position obj)\<lparr>px := screenWidth cfg - halfWidth\<rparr>,
                  velocity := (velocity obj)\<lparr>vx := 0\<rparr>\<rparr>
         else obj)"

definition constrainY :: "GameConfig \<Rightarrow> 'a GameObject_scheme \<Rightarrow> 'a GameObject_scheme" where
  "constrainY cfg obj =
     (let halfHeight = height (extent obj) / 2
      in if py (position obj) - halfHeight < 0
         then obj\<lparr>position := (position obj)\<lparr>py := halfHeight\<rparr>,
                  velocity := (velocity obj)\<lparr>vy := 0\<rparr>\<rparr>
         else if py (position obj) + halfHeight > screenHeight cfg
         then obj\<lparr>position := (position obj)\<lparr>py := screenHeight cfg - halfHeight\<rparr>,
                  velocity := (velocity obj)\<lparr>vy := 0\<rparr>\<rparr>
         else obj)"

text \<open>The two statements of \<open>constrainToScreen\<close>: first the X axis, then the Y axis.\<close>

definition constrainToScreen :: "GameConfig \<Rightarrow> 'a GameObject_scheme \<Rightarrow> 'a GameObject_scheme" where
  "constrainToScreen cfg obj = constrainY cfg (constrainX cfg obj)"

definition isOnScreen :: "GameConfig \<Rightarrow> 'a GameObject_scheme \<Rightarrow> bool" where
  "isOnScreen cfg obj =
     (let margin = 100
      in px (position obj) > - margin
         \<and> px (position obj) < screenWidth cfg + margin
         \<and> py (position obj) > - margin
         \<and> py (position obj) < screenHeight cfg + margin)"

text \<open>
  \<open>findNearestPlayer\<close>: the loop keeps the nearest active player seen so far and its
  distance; \<open>None\<close> stands for the initial \<open>null\<close> and \<open>Infinity\<close>. A later
  player replaces the current one only when strictly nearer.
\<close>

definition playerDistance :: "Enemy \<Rightarrow> Player \<Rightarrow> real" where
  "playerDistance enemy player =
     (let dx = px (position player) - px (position enemy);
          dy = py (position player) - py (position enemy)
      in sqrt (dx * dx + dy * dy))"

fun nearestLoop :: "Enemy \<Rightarrow> Player list \<Rightarrow> (Player \<times> real) option \<Rightarrow> (Player \<times> real) option" where
  "nearestLoop enemy [] best = best"
| "nearestLoop enemy (player # rest) best =
     (if isActive player
      then (let distance = playerDistance enemy player
            in case best of
                 None \<Rightarrow> nearestLoop enemy rest (Some (player, distance))
               | Some (nearestPlayer, nearestDistance) \<Rightarrow>
                   if distance < nearestDistance
                   then nearestLoop enemy rest (Some (player, distance))
                   else nearestLoop enemy rest best)
      else nearestLoop enemy rest best)"

definition findNearestPlayer :: "Enemy \<Rightarrow> Player list \<Rightarrow> Player option" where
  "findNearestPlayer enemy ps = map_option fst (nearestLoop enemy ps None)"

fun getEnemyShootInterval :: "EnemyType \<Rightarrow> real" where
  "getEnemyShootInterval BASIC = 2000"
| "getEnemyShootInterval FAST = 1500"
| "getEnemyShootInterval HEAVY = 3000"
| "getEnemyShootInterval BOSS = 1000"

definition createEnemyBullet :: "Enemy \<Rightarrow> World \<Rightarrow> Bullet \<times> World" where
  "createEnemyBullet enemy w =
     (let (bid, w1) = freshId ''enemy_bullet'' w
      in (\<lparr>ident = bid,
           position = \<lparr>px = px (position enemy),
                       py = py (position enemy) + height (extent enemy) / 2\<rparr>,
           velocity = \<lparr>vx = 0, vy = 150\<rparr>,
           extent = \<lparr>width = 6, height = 12\<rparr>,
           rotation = 0, health = 1, maxHealth = 1, isActive = True,
           bulletDamage = 10, ownerId = ident enemy, bulletType = ENEMY_BASIC,
           isPlayerBullet = None\<rparr>, w1))"

text \<open>
  \<open>!enemy.lastShotTime\<close> holds for the missing property and for the number \<open>0\<close>.
  The new bullet is pushed on \<open>gameState.bullets\<close>.
\<close>

definition handleEnemyShooting ::
  "Enemy \<Rightarrow> GameState \<Rightarrow> real \<Rightarrow> World \<Rightarrow> Enemy \<times> GameState \<times> World" where
  "handleEnemyShooting enemy gs deltaTime w =
     (let (lastShot, enemy1, w1) =
            (case lastShotTime enemy of
               None \<Rightarrow> (let (t, w') = Date_now w in (t, enemy\<lparr>lastShotTime := Some t\<rparr>, w'))
             | Some t0 \<Rightarrow>
                 if t0 = 0
                 then (let (t, w') = Date_now w in (t, enemy\<lparr>lastShotTime := Some t\<rparr>, w'))
                 else (t0, enemy, w));
          shootInterval = getEnemyShootInterval (enemyType enemy1);
          (t2, w2) = Date_now w1
      in if t2 - lastShot > shootInterval
         then (let (bullet, w3) = createEnemyBullet enemy1 w2;
                   (t4, w4) = Date_now w3
               in (enemy1\<lparr>lastShotTime := Some t4\<rparr>,
                   gs\<lparr>bullets := bullets gs @ [bullet]\<rparr>, w4))
         else (enemy1, gs, w2))"

definition applyAttackPattern :: "Enemy \<Rightarrow> GameState \<Rightarrow> World \<Rightarrow> Enemy \<times> World" where
  "applyAttackPattern enemy gs w =
     (case attackPattern enemy of
        STRAIGHT \<Rightarrow> (enemy, w)
      | ZIGZAG \<Rightarrow>
          (let (t, w1) = Date_now w
           in (enemy\<lparr>velocity := (velocity enemy)\<lparr>vx := sin (t * 0.005) * 100\<rparr>\<rparr>, w1))
      | CIRCULAR \<Rightarrow>
          (let radius = 50; speed = 2;
               (t, w1) = Date_now w;
               time = t * 0.001 * speed
           in (enemy\<lparr>velocity := (velocity enemy)
                  \<lparr>vx := cos time * radius, vy := sin time * radius + 50\<rparr>\<rparr>, w1))
      | HOMING \<Rightarrow>
          (case findNearestPlayer enemy (players gs) of
             None \<Rightarrow> (enemy, w)
           | Some nearestPlayer \<Rightarrow>
               (let dx = px (position nearestPlayer) - px (position enemy);
                    dy = py (position nearestPlayer) - py (position enemy);
                    distance = sqrt (dx * dx + dy * dy)
                in if distance > 0
                   then (let homingSpeed = 100
                         in (enemy\<lparr>velocity := (velocity enemy)
                                \<lparr>vx := (dx / distance) * homingSpeed,
                                 vy := (dy / distance) * homingSpeed\<rparr>\<rparr>, w))
                   else (enemy, w))))"

text \<open>\<open>updateEnemyBehavior\<close>: the switch on the attack pattern, then the shooting logic.\<close>

definition updateEnemyBehavior ::
  "Enemy \<Rightarrow> GameState \<Rightarrow> real \<Rightarrow> World \<Rightarrow> Enemy \<times> GameState \<times> World" where
  "updateEnemyBehavior enemy gs deltaTime w =
     (let (enemy1, w1) = applyAttackPattern enemy gs w
      in handleEnemyShooting enemy1 gs deltaTime w1)"

text \<open>
  The four \<open>forEach\<close> loops of \<open>PhysicsEngine.update\<close>. Each loop walks one
  collection and rebuilds it with the objects as the body leaves them; no loop pushes on
  the collection it walks. The enemy loop carries the game state, on whose \<open>bullets\<close>
  the shooting logic pushes and whose \<open>players\<close> the homing pattern reads; the
  rebuilt enemies are stored in the state when the loop ends.
\<close>

definition updatePlayer :: "GameConfig \<Rightarrow> real \<Rightarrow> Player \<Rightarrow> Player" where
  "updatePlayer cfg deltaSeconds player =
     (if isActive player
      then constrainToScreen cfg (updateGameObject player deltaSeconds)
      else player)"

fun updateEnemies ::
  "GameConfig \<Rightarrow> real \<Rightarrow> Enemy list \<Rightarrow> GameState \<Rightarrow> World \<Rightarrow> Enemy list \<times> GameState \<times> World" where
  "updateEnemies cfg deltaSeconds [] gs w = ([], gs, w)"
| "updateEnemies cfg deltaSeconds (enemy # rest) gs w =
     (if isActive enemy
      then (let enemy1 = updateGameObject enemy deltaSeconds;
                (enemy2, gs1, w1) = updateEnemyBehavior enemy1 gs deltaSeconds w;
                enemy3 = (if \<not> isOnScreen cfg enemy2 then enemy2\<lparr>isActive := False\<rparr> else enemy2);
                (rest', gs2, w2) = updateEnemies cfg deltaSeconds rest gs1 w1
            in (enemy3 # rest', gs2, w2))
      else (let (rest', gs2, w2) = updateEnemies cfg deltaSeconds rest gs w
            in (enemy # rest', gs2, w2)))"

definition updateBullet :: "GameConfig \<Rightarrow> real \<Rightarrow> Bullet \<Rightarrow> Bullet" where
  "updateBullet cfg deltaSeconds bullet =
     (if isActive bullet
      then (let bullet1 = updateGameObject bullet deltaSeconds
            in if \<not> isOnScreen cfg bullet1 then bullet1\<lparr>isActive := False\<rparr> else bullet1)
      else bullet)"

fun updatePowerUps ::
  "GameConfig \<Rightarrow> real \<Rightarrow> PowerUp list \<Rightarrow> World \<Rightarrow> PowerUp list \<times> World" where
  "updatePowerUps cfg deltaSeconds [] w = ([], w)"
| "updatePowerUps cfg deltaSeconds (powerUp # rest) w =
     (if isActive powerUp
      then (let powerUp1 = updateGameObject powerUp deltaSeconds;
                (t, w1) = Date_now w;
                powerUp2 = powerUp1\<lparr>position := (position powerUp1)
                              \<lparr>py := py (position powerUp1) + sin (t * 0.005) * 0.5\<rparr>\<rparr>;
                powerUp3 = (if \<not> isOnScreen cfg powerUp2
                            then powerUp2\<lparr>isActive := False\<rparr> else powerUp2);
                (rest', w2) = updatePowerUps cfg deltaSeconds rest w1
            in (powerUp3 # rest', w2))
      else (let (rest', w2) = updatePowerUps cfg deltaSeconds rest w
            in (powerUp # rest', w2)))"

definition PhysicsEngine_update ::
  "GameConfig \<Rightarrow> GameState \<Rightarrow> real \<Rightarrow> World \<Rightarrow> GameState \<times> World" where
  "PhysicsEngine_update cfg gameState deltaTime w =
     (let deltaSeconds = deltaTime / 1000;
          gs1 = gameState\<lparr>players := map (updatePlayer cfg deltaSeconds) (players gameState)\<rparr>;
          (es, gs2, w2) = updateEnemies cfg deltaSeconds (enemies gs1) gs1 w;
          gs3 = gs2\<lparr>enemies := es\<rparr>;
          gs4 = gs3\<lparr>bullets := map (updateBullet cfg deltaSeconds) (bullets gs3)\<rparr>;
          (ps, w4) = updatePowerUps cfg deltaSeconds (gsPowerUps gs4) w2
      in (gs4\<lparr>gsPowerUps := ps\<rparr>, w4))"

section \<open>Enemy spawner (engine/EnemySpawner.ts)\<close>

record EnemySpawner =
  esConfig :: GameConfig
  lastSpawnTime :: real
  spawnInterval :: real
  waveNumber :: int
  enemiesInCurrentWave :: int
  maxEnemiesPerWave :: int
  timeBetweenWaves :: real
  lastWaveTime :: real
  bossSpawned :: bool

text \<open>The field initialisers and the constructor, which reads the clock twice.\<close>

definition EnemySpawner_new :: "GameConfig \<Rightarrow> World \<Rightarrow> EnemySpawner \<times> World" where
  "EnemySpawner_new cfg w =
     (let (t1, w1) = Date_now w; (t2, w2) = Date_now w1
      in (\<lparr>esConfig = cfg, lastSpawnTime = t1, spawnInterval = 2000, waveNumber = 1,
           enemiesInCurrentWave = 0, maxEnemiesPerWave = 5, timeBetweenWaves = 5000,
           lastWaveTime = t2, bossSpawned = False\<rparr>, w2))"

definition shouldStartNewWave :: "EnemySpawner \<Rightarrow> GameState \<Rightarrow> real \<Rightarrow> bool" where
  "shouldStartNewWave sp gameState currentTime =
     (let activeEnemies = length (filter isActive (enemies gameState));
          timeSinceLastWave = currentTime - lastWaveTime sp
      in activeEnemies = 0
         \<and> timeSinceLastWave > timeBetweenWaves sp
         \<and> enemiesInCurrentWave sp \<ge> maxEnemiesPerWave sp)"

definition scaleDifficulty :: "EnemySpawner \<Rightarrow> EnemySpawner" where
  "scaleDifficulty sp =
     sp\<lparr>spawnInterval := max 500 (spawnInterval sp * 0.9),
        maxEnemiesPerWave := min 15 (maxEnemiesPerWave sp + 1),
        timeBetweenWaves := max 2000 (timeBetweenWaves sp * 0.95)\<rparr>"

definition startNewWave :: "EnemySpawner \<Rightarrow> World \<Rightarrow> EnemySpawner \<times> World" where
  "startNewWave sp w =
     (let (t, w1) = Date_now w
      in (scaleDifficulty
            (sp\<lparr>waveNumber := waveNumber sp + 1,
                enemiesInCurrentWave := 0,
                lastWaveTime := t,
                bossSpawned := False\<rparr>), w1))"

definition shouldSpawnBoss :: "EnemySpawner \<Rightarrow> GameState \<Rightarrow> bool" where
  "shouldSpawnBoss sp gameState =
     (waveNumber sp mod 5 = 0
      \<and> \<not> bossSpawned sp
      \<and> real_of_int (enemiesInCurrentWave sp) \<ge> real_of_int (maxEnemiesPerWave sp) * 0.8)"

definition shouldSpawnEnemy :: "EnemySpawner \<Rightarrow> real \<Rightarrow> bool" where
  "shouldSpawnEnemy sp currentTime = (currentTime - lastSpawnTime sp > spawnInterval sp)"

definition getAvailableEnemyTypes :: "EnemySpawner \<Rightarrow> EnemyType list" where
  "getAvailableEnemyTypes sp =
     [BASIC] @ (if waveNumber sp \<ge> 2 then [FAST] else [])
             @ (if waveNumber sp \<ge> 3 then [HEAVY] else [])"

record EnemyStats =
  statHealth :: real
  statDamage :: real
  statSpeed :: real
  statPoints :: real
  statSize :: Size

text \<open>\<open>Math.floor\<close>, as a number again.\<close>

definition Math_floor :: "real \<Rightarrow> real" where
  "Math_floor r = real_of_int \<lfloor>r\<rfloor>"

text \<open>
  \<open>getEnemyStats\<close>: the boss type has no case of its own and takes the \<open>default\<close>
  branch of the switch.
\<close>

definition getEnemyStats :: "EnemySpawner \<Rightarrow> EnemyType \<Rightarrow> EnemyStats" where
  "getEnemyStats sp type =
     (let difficultyMultiplier = 1 + (real_of_int (waveNumber sp) - 1) * 0.1
      in case type of
           BASIC \<Rightarrow>
             \<lparr>statHealth = Math_floor (10 * difficultyMultiplier),
              statDamage = Math_floor (10 * difficultyMultiplier),
              statSpeed = 80 + real_of_int (waveNumber sp) * 5,
              statPoints = 100,
              statSize = \<lparr>width = 30, height = 30\<rparr>\<rparr>
         | FAST \<Rightarrow>
             \<lparr>statHealth = Math_floor (5 * difficultyMultiplier),
              statDamage = Math_floor (8 * difficultyMultiplier),
              statSpeed = 150 + real_of_int (waveNumber sp) * 8,
              statPoints = 150,
              statSize = \<lparr>width = 25, height = 25\<rparr>\<rparr>
         | HEAVY \<Rightarrow>
             \<lparr>statHealth = Math_floor (25 * difficultyMultiplier),
              statDamage = Math_floor (20 * difficultyMultiplier),
              statSpeed = 50 + real_of_int (waveNumber sp) * 3,
              statPoints = 300,
              statSize = \<lparr>width = 40, height = 40\<rparr>\<rparr>
         | BOSS \<Rightarrow>
             \<lparr>statHealth = Math_floor (10 * difficultyMultiplier),
              statDamage = Math_floor (10 * difficultyMultiplier),
              statSpeed = 80,
              statPoints = 100,
              statSize = \<lparr>width = 30, height = 30\<rparr>\<rparr>)"

text \<open>\<open>getBossStats\<close> has no speed; the boss's velocity is a constant of \<open>createBoss\<close>.\<close>

definition getBossStats :: "EnemySpawner \<Rightarrow> EnemyStats" where
  "getBossStats sp =
     (let difficultyMultiplier = 1 + (real_of_int (waveNumber sp) - 1) * 0.15
      in \<lparr>statHealth = Math_floor (200 * difficultyMultiplier),
          statDamage = Math_floor (30 * difficultyMultiplier),
          statSpeed = 30,
          statPoints = 1000 * Math_floor (real_of_int (waveNumber sp) / 5),
          statSize = \<lparr>width = 80, height = 80\<rparr>\<rparr>)"

text \<open>
  \<open>Math.floor(Math.random() * n)\<close>, the index of a uniform choice among \<open>n\<close>
  elements. The draw lies in \<open>[0, 1)\<close>, so the index is below \<open>n\<close>
  (lemma \<open>randomIndex_less\<close>) and the array read never leaves the array.
\<close>

definition randomIndex :: "real \<Rightarrow> nat \<Rightarrow> nat" where
  "randomIndex r n = nat \<lfloor>r * real n\<rfloor>"

definition getRandomAttackPattern :: "EnemyType \<Rightarrow> World \<Rightarrow> AttackPattern \<times> World" where
  "getRandomAttackPattern type w =
     (case type of
        BASIC \<Rightarrow> (let (r, w1) = Math_random w in (if r < 0.7 then STRAIGHT else ZIGZAG, w1))
      | FAST \<Rightarrow>
          (let fastPatterns = [STRAIGHT, ZIGZAG];
               (r, w1) = Math_random w
           in (fastPatterns ! randomIndex r (length fastPatterns), w1))
      | HEAVY \<Rightarrow> (let (r, w1) = Math_random w in (if r < 0.5 then STRAIGHT else HOMING, w1))
      | BOSS \<Rightarrow> (CIRCULAR, w))"

definition getRandomSpawnPosition :: "GameConfig \<Rightarrow> World \<Rightarrow> Position \<times> World" where
  "getRandomSpawnPosition cfg w =
     (let (r, w1) = Math_random w
      in (\<lparr>px = r * (screenWidth cfg - 60) + 30, py = - 30\<rparr>, w1))"

definition createEnemy :: "EnemySpawner \<Rightarrow> EnemyType \<Rightarrow> World \<Rightarrow> Enemy \<times> World" where
  "createEnemy sp type w =
     (let (pos, w1) = getRandomSpawnPosition (esConfig sp) w;
          baseStats = getEnemyStats sp type;
          (eid, w2) = freshId ''enemy'' w1;
          (pattern, w3) = getRandomAttackPattern type w2
      in (\<lparr>ident = eid, position = pos,
           velocity = \<lparr>vx = 0, vy = statSpeed baseStats\<rparr>,
           extent = statSize baseStats,
           rotation = 0,
           health = statHealth baseStats,
           maxHealth = statHealth baseStats,
           isActive = True,
           enemyType = type,
           damage = statDamage baseStats,
           points = statPoints baseStats,
           attackPattern = pattern,
           lastShotTime = None\<rparr>, w3))"

definition createRandomEnemy :: "EnemySpawner \<Rightarrow> World \<Rightarrow> Enemy \<times> World" where
  "createRandomEnemy sp w =
     (let enemyTypes = getAvailableEnemyTypes sp;
          (r, w1) = Math_random w;
          randomType = enemyTypes ! randomIndex r (length enemyTypes)
      in createEnemy sp randomType w1)"

definition createBoss :: "EnemySpawner \<Rightarrow> World \<Rightarrow> Enemy \<times> World" where
  "createBoss sp w =
     (let pos = \<lparr>px = screenWidth (esConfig sp) / 2, py = - 50\<rparr>;
          bossStats = getBossStats sp;
          (bid, w1) = freshId ''boss'' w
      in (\<lparr>ident = bid, position = pos,
           velocity = \<lparr>vx = 0, vy = 30\<rparr>,
           extent = statSize bossStats,
           rotation = 0,
           health = statHealth bossStats,
           maxHealth = statHealth bossStats,
           isActive = True,
           enemyType = BOSS,
           damage = statDamage bossStats,
           points = statPoints bossStats,
           attackPattern = CIRCULAR,
           lastShotTime = None\<rparr>, w1))"

text \<open>
  The three steps of \<open>EnemySpawner.update\<close>, each on the spawner as the step before
  left it: the new-wave check, the boss check, the regular spawn. The created objects are
  always truthy, so the \<open>if (boss)\<close> and \<open>if (enemy)\<close> tests always pass.
\<close>

definition waveStep :: "EnemySpawner \<Rightarrow> GameState \<Rightarrow> real \<Rightarrow> World \<Rightarrow> EnemySpawner \<times> World" where
  "waveStep sp gameState currentTime w =
     (if shouldStartNewWave sp gameState currentTime then startNewWave sp w else (sp, w))"

definition bossStep ::
  "EnemySpawner \<Rightarrow> GameState \<Rightarrow> World \<Rightarrow> Enemy list \<times> EnemySpawner \<times> World" where
  "bossStep sp gameState w =
     (if shouldSpawnBoss sp gameState
      then (let (boss, w1) = createBoss sp w in ([boss], sp\<lparr>bossSpawned := True\<rparr>, w1))
      else ([], sp, w))"

definition spawnStep ::
  "EnemySpawner \<Rightarrow> real \<Rightarrow> World \<Rightarrow> Enemy list \<times> EnemySpawner \<times> World" where
  "spawnStep sp currentTime w =
     (if shouldSpawnEnemy sp currentTime \<and> enemiesInCurrentWave sp < maxEnemiesPerWave sp
      then (let (enemy, w1) = createRandomEnemy sp w
            in ([enemy],
                sp\<lparr>enemiesInCurrentWave := enemiesInCurrentWave sp + 1,
                   lastSpawnTime := currentTime\<rparr>, w1))
      else ([], sp, w))"

definition EnemySpawner_update ::
  "EnemySpawner \<Rightarrow> GameState \<Rightarrow> real \<Rightarrow> World \<Rightarrow> Enemy list \<times> EnemySpawner \<times> World" where
  "EnemySpawner_update sp gameState deltaTime w =
     (let (currentTime, w1) = Date_now w;
          (sp1, w2) = waveStep sp gameState currentTime w1;
          (bosses, sp2, w3) = bossStep sp1 gameState w2;
          (regular, sp3, w4) = spawnStep sp2 currentTime w3
      in (bosses @ regular, sp3, w4))"

definition EnemySpawner_reset :: "EnemySpawner \<Rightarrow> World \<Rightarrow> EnemySpawner \<times> World" where
  "EnemySpawner_reset sp w =
     (let (t1, w1) = Date_now w; (t2, w2) = Date_now w1
      in (sp\<lparr>waveNumber := 1, enemiesInCurrentWave := 0, maxEnemiesPerWave := 5,
             spawnInterval := 2000, timeBetweenWaves := 5000,
             lastSpawnTime := t1, lastWaveTime := t2, bossSpawned := False\<rparr>, w2))"

text \<open>\<open>setDifficulty\<close>: any other string changes nothing.\<close>

definition setDifficulty :: "EnemySpawner \<Rightarrow> string \<Rightarrow> EnemySpawner" where
  "setDifficulty sp name =
     (if name = ''easy'' then sp\<lparr>spawnInterval := 3000, maxEnemiesPerWave := 3\<rparr>
      else if name = ''medium'' then sp\<lparr>spawnInterval := 2000, maxEnemiesPerWave := 5\<rparr>
      else if name = ''hard'' then sp\<lparr>spawnInterval := 1500, maxEnemiesPerWave := 7\<rparr>
      else if name = ''expert'' then sp\<lparr>spawnInterval := 1000, maxEnemiesPerWave := 10\<rparr>
      else sp)"

section \<open>Power-up spawner (engine/PowerUpSpawner.ts)\<close>

record PowerUpSpawner =
  puConfig :: GameConfig
  puLastSpawnTime :: real
  puSpawnInterval :: real
  spawnChance :: real

definition PowerUpSpawner_new :: "GameConfig \<Rightarrow> World \<Rightarrow> PowerUpSpawner \<times> World" where
  "PowerUpSpawner_new cfg w =
     (let (t, w1) = Date_now w
      in (\<lparr>puConfig = cfg, puLastSpawnTime = t, puSpawnInterval = 15000,
           spawnChance = 0.3\<rparr>, w1))"

text \<open>The random draw is made only when the two earlier tests let the call through.\<close>

definition shouldSpawnPowerUp ::
  "PowerUpSpawner \<Rightarrow> real \<Rightarrow> GameState \<Rightarrow> World \<Rightarrow> bool \<times> World" where
  "shouldSpawnPowerUp sp currentTime gameState w =
     (if currentTime - puLastSpawnTime sp < puSpawnInterval sp then (False, w)
      else (let activePowerUps = length (filter isActive (gsPowerUps gameState))
            in if activePowerUps \<ge> 3 then (False, w)
               else (let (r, w1) = Math_random w in (r < spawnChance sp, w1))))"

definition getAvailablePowerUpTypes :: "PowerUpType list" where
  "getAvailablePowerUpTypes = [HEALTH, WEAPON_UPGRADE, SHIELD, SPEED_BOOST, SCORE_MULTIPLIER]"

record PowerUpStats =
  puSize :: Size
  puDuration :: real
  puEffect :: PowerUpEffect

fun getPowerUpStats :: "PowerUpType \<Rightarrow> PowerUpStats" where
  "getPowerUpStats HEALTH =
     \<lparr>puSize = \<lparr>width = 25, height = 25\<rparr>, puDuration = 0,
      puEffect = \<lparr>effectType = HEALTH, effectValue = 50, effectDuration = 0\<rparr>\<rparr>"
| "getPowerUpStats WEAPON_UPGRADE =
     \<lparr>puSize = \<lparr>width = 30, height = 30\<rparr>, puDuration = 10000,
      puEffect = \<lparr>effectType = WEAPON_UPGRADE, effectValue = 1, effectDuration = 10000\<rparr>\<rparr>"
| "getPowerUpStats SHIELD =
     \<lparr>puSize = \<lparr>width = 28, height = 28\<rparr>, puDuration = 8000,
      puEffect = \<lparr>effectType = SHIELD, effectValue = 100, effectDuration = 8000\<rparr>\<rparr>"
| "getPowerUpStats SPEED_BOOST =
     \<lparr>puSize = \<lparr>width = 26, height = 26\<rparr>, puDuration = 6000,
      puEffect = \<lparr>effectType = SPEED_BOOST, effectValue = 1.5, effectDuration = 6000\<rparr>\<rparr>"
| "getPowerUpStats SCORE_MULTIPLIER =
     \<lparr>puSize = \<lparr>width = 32, height = 32\<rparr>, puDuration = 12000,
      puEffect = \<lparr>effectType = SCORE_MULTIPLIER, effectValue = 2, effectDuration = 12000\<rparr>\<rparr>"

definition createPowerUp :: "PowerUpSpawner \<Rightarrow> PowerUpType \<Rightarrow> World \<Rightarrow> PowerUp \<times> World" where
  "createPowerUp sp type w =
     (let (pos, w1) = getRandomSpawnPosition (puConfig sp) w;
          stats = getPowerUpStats type;
          (pid, w2) = freshId ''powerup'' w1
      in (\<lparr>ident = pid, position = pos,
           velocity = \<lparr>vx = 0, vy = 50\<rparr>,
           extent = puSize stats,
           rotation = 0, health = 1, maxHealth = 1, isActive = True,
           powerUpType = type,
           duration = puDuration stats,
           effect = puEffect stats\<rparr>, w2))"

definition createRandomPowerUp :: "PowerUpSpawner \<Rightarrow> World \<Rightarrow> PowerUp \<times> World" where
  "createRandomPowerUp sp w =
     (let powerUpTypes = getAvailablePowerUpTypes;
          (r, w1) = Math_random w;
          randomType = powerUpTypes ! randomIndex r (length powerUpTypes)
      in createPowerUp sp randomType w1)"

definition PowerUpSpawner_update ::
  "PowerUpSpawner \<Rightarrow> GameState \<Rightarrow> real \<Rightarrow> World \<Rightarrow> PowerUp list \<times> PowerUpSpawner \<times> World" where
  "PowerUpSpawner_update sp gameState deltaTime w =
     (let (currentTime, w1) = Date_now w;
          (go, w2) = shouldSpawnPowerUp sp currentTime gameState w1
      in if go
         then (let (powerUp, w3) = createRandomPowerUp sp w2
               in ([powerUp], sp\<lparr>puLastSpawnTime := currentTime\<rparr>, w3))
         else ([], sp, w2))"

section \<open>Game engine (engine/GameEngine.ts)\<close>

text \<open>
  The sound manager is an external collaborator whose methods are asynchronous and
  swallow their own failures; the engine never awaits them. Its part in the model is the
  log of the cues the engine has asked for.
\<close>

datatype SoundCue = ShootSound WeaponType | ExplosionSound | PowerUpSound

text \<open>
  \<open>gameLoopId\<close> is the handle of the pending animation frame, \<open>None\<close> for
  \<open>null\<close>. The state-update callback is external: \<open>update\<close> returns the snapshot it
  hands to the callback.
\<close>

record GameEngine =
  gameState :: GameState
  config :: GameConfig
  enemySpawner :: EnemySpawner
  powerUpSpawner :: PowerUpSpawner
  soundManager :: "SoundCue list"
  lastUpdateTime :: real
  gameLoopId :: "nat option"

definition initialGameState :: GameState where
  "initialGameState =
     \<lparr>players = [], enemies = [], bullets = [], gsPowerUps = [], explosions = [],
      gsScore = 0, level = 1, wave = 1, enemiesKilled = 0, powerUpsCollected = 0,
      accuracy = 0, gameStatus = MENU, isPaused = False, timeElapsed = 0,
      isMultiplayer = False\<rparr>"

definition GameEngine_new :: "GameConfig \<Rightarrow> World \<Rightarrow> GameEngine \<times> World" where
  "GameEngine_new cfg w =
     (let (es, w1) = EnemySpawner_new cfg w;
          (ps, w2) = PowerUpSpawner_new cfg w1
      in (\<lparr>gameState = initialGameState, config = cfg, enemySpawner = es,
           powerUpSpawner = ps, soundManager = [], lastUpdateTime = 0,
           gameLoopId = None\<rparr>, w2))"

definition stopGameLoop :: "GameEngine \<Rightarrow> GameEngine" where
  "stopGameLoop eng = (case gameLoopId eng of None \<Rightarrow> eng | Some h \<Rightarrow> eng\<lparr>gameLoopId := None\<rparr>)"

definition addPlayer :: "GameEngine \<Rightarrow> Player \<Rightarrow> GameEngine" where
  "addPlayer eng player =
     eng\<lparr>gameState := (gameState eng)\<lparr>players := players (gameState eng) @ [player]\<rparr>\<rparr>"

definition removePlayer :: "GameEngine \<Rightarrow> Ident \<Rightarrow> GameEngine" where
  "removePlayer eng pid =
     eng\<lparr>gameState := (gameState eng)
            \<lparr>players := filter (\<lambda>p. playerId p \<noteq> pid) (players (gameState eng))\<rparr>\<rparr>"

text \<open>
  \<open>Array.prototype.find\<close> returns the first element that satisfies the test; the
  update then writes to that one element, here the first position of the list that holds it.
\<close>

fun updateFirst :: "('a \<Rightarrow> bool) \<Rightarrow> ('a \<Rightarrow> 'a) \<Rightarrow> 'a list \<Rightarrow> 'a list" where
  "updateFirst P f [] = []"
| "updateFirst P f (x # xs) = (if P x then f x # xs else x # updateFirst P f xs)"

definition updatePlayerPosition :: "GameEngine \<Rightarrow> Ident \<Rightarrow> Position \<Rightarrow> GameEngine" where
  "updatePlayerPosition eng pid pos =
     (case find (\<lambda>p. playerId p = pid) (players (gameState eng)) of
        None \<Rightarrow> eng
      | Some player \<Rightarrow>
          eng\<lparr>gameState := (gameState eng)
                 \<lparr>players := updateFirst (\<lambda>p. playerId p = pid) (\<lambda>p. p\<lparr>position := pos\<rparr>)
                                (players (gameState eng))\<rparr>\<rparr>)"

definition createBullet ::
  "GameEngine \<Rightarrow> Position \<Rightarrow> Velocity \<Rightarrow> Ident \<Rightarrow> BulletType \<Rightarrow> World \<Rightarrow> Bullet \<times> World" where
  "createBullet eng pos vel owner btype w =
     (let playerBullet = list_ex (\<lambda>player. ident player = owner) (players (gameState eng));
          (bid, w1) = freshId ''bullet'' w
      in (\<lparr>ident = bid, position = pos, velocity = vel,
           extent = \<lparr>width = 4, height = 10\<rparr>,
           rotation = 0, health = 1, maxHealth = 1, isActive = True,
           bulletDamage = 10, ownerId = owner, bulletType = btype,
           isPlayerBullet = Some playerBullet\<rparr>, w1))"

text \<open>
  \<open>createPlayerBullets\<close>: the switch has a case for \<open>'basic'\<close> and one for
  \<open>'spreadShot'\<close> (the loop over \<open>i = -1, 0, 1\<close>); every other weapon leaves the
  list empty.
\<close>

fun spreadLoop ::
  "GameEngine \<Rightarrow> Player \<Rightarrow> Position \<Rightarrow> real list \<Rightarrow> World \<Rightarrow> Bullet list \<times> World" where
  "spreadLoop eng player basePosition [] w = ([], w)"
| "spreadLoop eng player basePosition (i # rest) w =
     (let (b, w1) = createBullet eng
                      \<lparr>px = px basePosition + i * 10, py = py basePosition\<rparr>
                      \<lparr>vx = i * 50, vy = - bulletSpeed (config eng)\<rparr>
                      (playerId player) PLAYER_BASIC w;
          (bs, w2) = spreadLoop eng player basePosition rest w1
      in (b # bs, w2))"

definition createPlayerBullets :: "GameEngine \<Rightarrow> Player \<Rightarrow> World \<Rightarrow> Bullet list \<times> World" where
  "createPlayerBullets eng player w =
     (let basePosition = \<lparr>px = px (position player),
                          py = py (position player) - height (extent player) / 2\<rparr>
      in case weaponType player of
           BASIC_WEAPON \<Rightarrow>
             (let (b, w1) = createBullet eng basePosition
                              \<lparr>vx = 0, vy = - bulletSpeed (config eng)\<rparr>
                              (playerId player) PLAYER_BASIC w
              in ([b], w1))
         | SPREAD_SHOT \<Rightarrow> spreadLoop eng player basePosition [- 1, 0, 1] w
         | RAPID_FIRE \<Rightarrow> ([], w)
         | LASER_WEAPON \<Rightarrow> ([], w)
         | MISSILE \<Rightarrow> ([], w))"

definition playerShoot :: "GameEngine \<Rightarrow> Ident \<Rightarrow> World \<Rightarrow> GameEngine \<times> World" where
  "playerShoot eng pid w =
     (case find (\<lambda>p. playerId p = pid) (players (gameState eng)) of
        None \<Rightarrow> (eng, w)
      | Some player \<Rightarrow>
          if gameStatus (gameState eng) = PLAYING
          then (let (newBullets, w1) = createPlayerBullets eng player w
                in (eng\<lparr>gameState := (gameState eng)
                          \<lparr>bullets := bullets (gameState eng) @ newBullets\<rparr>,
                        soundManager := soundManager eng @ [ShootSound (weaponType player)]\<rparr>,
                    w1))
          else (eng, w))"

subsection \<open>Collision resolution\<close>

definition createExplosion :: "Position \<Rightarrow> real \<Rightarrow> GameEngine \<Rightarrow> World \<Rightarrow> GameEngine \<times> World" where
  "createExplosion pos sz eng w =
     (let (xid, w1) = freshId ''explosion'' w;
          explosion = \<lparr>explosionId = xid, explosionPosition = pos,
                       explosionSize = \<lparr>width = sz, height = sz\<rparr>,
                       explosionDuration = 500, currentFrame = 0, animationProgress = 0\<rparr>
      in (eng\<lparr>gameState := (gameState eng)
                \<lparr>explosions := explosions (gameState eng) @ [explosion]\<rparr>\<rparr>, w1))"

definition playExplosionSound :: "GameEngine \<Rightarrow> GameEngine" where
  "playExplosionSound eng = eng\<lparr>soundManager := soundManager eng @ [ExplosionSound]\<rparr>"

definition playPowerUpSound :: "GameEngine \<Rightarrow> GameEngine" where
  "playPowerUpSound eng = eng\<lparr>soundManager := soundManager eng @ [PowerUpSound]\<rparr>"

text \<open>
  The handlers mutate the two colliding objects and the engine (explosions, score, sound
  cues); they return all three, with the world that \<open>createExplosion\<close> has read.
\<close>

definition handlePlayerEnemyCollision ::
  "Player \<Rightarrow> Enemy \<Rightarrow> GameEngine \<times> World \<Rightarrow> Player \<times> Enemy \<times> GameEngine \<times> World" where
  "handlePlayerEnemyCollision player enemy st =
     (let player1 = player\<lparr>health := health player - damage enemy\<rparr>;
          enemy1 = enemy\<lparr>isActive := False\<rparr>;
          (eng1, w1) = createExplosion (position enemy1) 30 (fst st) (snd st);
          eng2 = playExplosionSound eng1
      in if health player1 \<le> 0
         then (let player2 = player1\<lparr>lives := lives player1 - 1\<rparr>;
                   player3 = player2\<lparr>health := maxHealth player2\<rparr>
               in if lives player3 \<le> 0
                  then (player3\<lparr>isActive := False\<rparr>, enemy1, eng2, w1)
                  else (player3, enemy1, eng2, w1))
         else (player1, enemy1, eng2, w1))"

definition handleBulletEnemyCollision ::
  "Bullet \<Rightarrow> Enemy \<Rightarrow> GameEngine \<times> World \<Rightarrow> Bullet \<times> Enemy \<times> GameEngine \<times> World" where
  "handleBulletEnemyCollision bullet enemy st =
     (let enemy1 = enemy\<lparr>health := health enemy - bulletDamage bullet\<rparr>;
          bullet1 = bullet\<lparr>isActive := False\<rparr>
      in if health enemy1 \<le> 0
         then (let enemy2 = enemy1\<lparr>isActive := False\<rparr>;
                   eng1 = (fst st)\<lparr>gameState := (gameState (fst st))
                            \<lparr>gsScore := gsScore (gameState (fst st)) + points enemy2\<rparr>\<rparr>;
                   (eng2, w2) = createExplosion (position enemy2) 25 eng1 (snd st)
               in (bullet1, enemy2, playExplosionSound eng2, w2))
         else (bullet1, enemy1, st))"

definition handleBulletPlayerCollision ::
  "Bullet \<Rightarrow> Player \<Rightarrow> GameEngine \<times> World \<Rightarrow> Bullet \<times> Player \<times> GameEngine \<times> World" where
  "handleBulletPlayerCollision bullet player st =
     (let player1 = player\<lparr>health := health player - bulletDamage bullet\<rparr>;
          bullet1 = bullet\<lparr>isActive := False\<rparr>
      in if health player1 \<le> 0
         then (let player2 = player1\<lparr>lives := lives player1 - 1\<rparr>;
                   player3 = player2\<lparr>health := maxHealth player2\<rparr>
               in if lives player3 \<le> 0
                  then (bullet1, player3\<lparr>isActive := False\<rparr>, st)
                  else (bullet1, player3, st))
         else (bullet1, player1, st))"

text \<open>
  \<open>applyPowerUp\<close>: only the health power-up has an effect; the cases for the weapon
  upgrade and the shield are empty and the other two types have no case.
\<close>

definition applyPowerUp :: "Player \<Rightarrow> PowerUp \<Rightarrow> Player" where
  "applyPowerUp player powerUp =
     (case powerUpType powerUp of
        HEALTH \<Rightarrow> player\<lparr>health := min (health player + effectValue (effect powerUp))
                                     (maxHealth player)\<rparr>
      | WEAPON_UPGRADE \<Rightarrow> player
      | SHIELD \<Rightarrow> player
      | SPEED_BOOST \<Rightarrow> player
      | SCORE_MULTIPLIER \<Rightarrow> player)"

definition handlePlayerPowerUpCollision ::
  "Player \<Rightarrow> PowerUp \<Rightarrow> GameEngine \<times> World \<Rightarrow> Player \<times> PowerUp \<times> GameEngine \<times> World" where
  "handlePlayerPowerUpCollision player powerUp st =
     (let powerUp1 = powerUp\<lparr>isActive := False\<rparr>;
          player1 = applyPowerUp player powerUp1
      in (player1, powerUp1, playPowerUpSound (fst st), snd st))"

text \<open>
  Two nested \<open>forEach\<close> loops over two arrays of objects that the body mutates in
  place. The inner loop walks the second array for one element of the first; the outer
  loop walks the first array, each element meeting the second array as the earlier
  elements left it. The arrays keep their length and order; \<open>'s\<close> is what the body
  changes besides the two objects.
\<close>

fun forEachInner ::
  "('a \<Rightarrow> 'b \<Rightarrow> 's \<Rightarrow> 'a \<times> 'b \<times> 's) \<Rightarrow> 'a \<Rightarrow> 'b list \<Rightarrow> 's \<Rightarrow> 'a \<times> 'b list \<times> 's" where
  "forEachInner body a [] s = (a, [], s)"
| "forEachInner body a (b # bs) s =
     (let (a1, b1, s1) = body a b s;
          (a2, bs2, s2) = forEachInner body a1 bs s1
      in (a2, b1 # bs2, s2))"

fun forEachOuter ::
  "('a \<Rightarrow> 'b list \<Rightarrow> 's \<Rightarrow> 'a \<times> 'b list \<times> 's) \<Rightarrow> 'a list \<Rightarrow> 'b list \<Rightarrow> 's
     \<Rightarrow> 'a list \<times> 'b list \<times> 's" where
  "forEachOuter row [] bs s = ([], bs, s)"
| "forEachOuter row (a # as) bs s =
     (let (a1, bs1, s1) = row a bs s;
          (as2, bs2, s2) = forEachOuter row as bs1 s1
      in (a1 # as2, bs2, s2))"

definition playerEnemyBody ::
  "Player \<Rightarrow> Enemy \<Rightarrow> GameEngine \<times> World \<Rightarrow> Player \<times> Enemy \<times> GameEngine \<times> World" where
  "playerEnemyBody player enemy st =
     (if checkCollision player enemy then handlePlayerEnemyCollision player enemy st
      else (player, enemy, st))"

definition bulletEnemyBody ::
  "Bullet \<Rightarrow> Enemy \<Rightarrow> GameEngine \<times> World \<Rightarrow> Bullet \<times> Enemy \<times> GameEngine \<times> World" where
  "bulletEnemyBody bullet enemy st =
     (if checkCollision bullet enemy then handleBulletEnemyCollision bullet enemy st
      else (bullet, enemy, st))"

definition bulletEnemyRow ::
  "Bullet \<Rightarrow> Enemy list \<Rightarrow> GameEngine \<times> World \<Rightarrow> Bullet \<times> Enemy list \<times> GameEngine \<times> World" where
  "bulletEnemyRow bullet es st =
     (if startsWith (bulletTypeValue (bulletType bullet)) ''player''
      then forEachInner bulletEnemyBody bullet es st
      else (bullet, es, st))"

definition bulletPlayerBody ::
  "Bullet \<Rightarrow> Player \<Rightarrow> GameEngine \<times> World \<Rightarrow> Bullet \<times> Player \<times> GameEngine \<times> World" where
  "bulletPlayerBody bullet player st =
     (if checkCollision bullet player then handleBulletPlayerCollision bullet player st
      else (bullet, player, st))"

definition bulletPlayerRow ::
  "Bullet \<Rightarrow> Player list \<Rightarrow> GameEngine \<times> World \<Rightarrow> Bullet \<times> Player list \<times> GameEngine \<times> World" where
  "bulletPlayerRow bullet ps st =
     (if startsWith (bulletTypeValue (bulletType bullet)) ''enemy''
      then forEachInner bulletPlayerBody bullet ps st
      else (bullet, ps, st))"

definition playerPowerUpBody ::
  "Player \<Rightarrow> PowerUp \<Rightarrow> GameEngine \<times> World \<Rightarrow> Player \<times> PowerUp \<times> GameEngine \<times> World" where
  "playerPowerUpBody player powerUp st =
     (if checkCollision player powerUp then handlePlayerPowerUpCollision player powerUp st
      else (player, powerUp, st))"

text \<open>
  \<open>handleCollisions\<close>: the four passes in the order of the source. During a pass the
  walked collections are held by the loops; the handlers reach the engine only for its
  explosions, score and sound cues. The collections are stored back at the end.
\<close>

definition handleCollisions :: "GameEngine \<Rightarrow> World \<Rightarrow> GameEngine \<times> World" where
  "handleCollisions eng w =
     (let gs = gameState eng;
          (ps1, es1, st1) =
             forEachOuter (forEachInner playerEnemyBody) (players gs) (enemies gs) (eng, w);
          (bs2, es2, st2) = forEachOuter bulletEnemyRow (bullets gs) es1 st1;
          (bs3, ps3, st3) = forEachOuter bulletPlayerRow bs2 ps1 st2;
          (ps4, pus4, st4) =
             forEachOuter (forEachInner playerPowerUpBody) ps3 (gsPowerUps gs) st3
      in ((fst st4)\<lparr>gameState := (gameState (fst st4))
                      \<lparr>players := ps4, enemies := es2, bullets := bs3, gsPowerUps := pus4\<rparr>\<rparr>,
          snd st4))"

subsection \<open>The rest of the tick\<close>

definition cleanupInactiveObjects :: "GameEngine \<Rightarrow> GameEngine" where
  "cleanupInactiveObjects eng =
     eng\<lparr>gameState := (gameState eng)
            \<lparr>players := filter isActive (players (gameState eng)),
             enemies := filter isActive (enemies (gameState eng)),
             bullets := filter isActive (bullets (gameState eng)),
             gsPowerUps := filter isActive (gsPowerUps (gameState eng))\<rparr>\<rparr>"

definition ageExplosion :: "real \<Rightarrow> Explosion \<Rightarrow> Explosion" where
  "ageExplosion deltaTime explosion =
     (let e1 = explosion\<lparr>currentFrame := currentFrame explosion + deltaTime\<rparr>
      in e1\<lparr>animationProgress := min (currentFrame e1 / explosionDuration e1) 1\<rparr>)"

definition updateExplosions :: "GameEngine \<Rightarrow> real \<Rightarrow> GameEngine" where
  "updateExplosions eng deltaTime =
     eng\<lparr>gameState := (gameState eng)
            \<lparr>explosions := filter (\<lambda>e. currentFrame e < explosionDuration e)
                             (map (ageExplosion deltaTime) (explosions (gameState eng)))\<rparr>\<rparr>"

definition checkGameOverConditions :: "GameEngine \<Rightarrow> GameEngine" where
  "checkGameOverConditions eng =
     (let activePlayers = filter isActive (players (gameState eng))
      in if length activePlayers = 0
         then stopGameLoop (eng\<lparr>gameState := (gameState eng)\<lparr>gameStatus := GAME_OVER\<rparr>\<rparr>)
         else eng)"

text \<open>
  One tick. The result is the engine after the tick, the snapshot
  \<open>{ ...this.gameState }\<close> given to the state-update callback, and the world.
\<close>

definition GameEngine_update :: "GameEngine \<Rightarrow> World \<Rightarrow> GameEngine \<times> GameState \<times> World" where
  "GameEngine_update eng w =
     (let (currentTime, w1) = Date_now w;
          deltaTime = currentTime - lastUpdateTime eng;
          eng1 = eng\<lparr>lastUpdateTime := currentTime\<rparr>;
          eng2 = eng1\<lparr>gameState := (gameState eng1)
                       \<lparr>timeElapsed := timeElapsed (gameState eng1) + deltaTime\<rparr>\<rparr>;
          (gs3, w3) = PhysicsEngine_update (config eng2) (gameState eng2) deltaTime w1;
          (newEnemies, es4, w4) = EnemySpawner_update (enemySpawner eng2) gs3 deltaTime w3;
          gs4 = gs3\<lparr>enemies := enemies gs3 @ newEnemies\<rparr>;
          (newPowerUps, ps5, w5) = PowerUpSpawner_update (powerUpSpawner eng2) gs4 deltaTime w4;
          gs5 = gs4\<lparr>gsPowerUps := gsPowerUps gs4 @ newPowerUps\<rparr>;
          eng5 = eng2\<lparr>gameState := gs5, enemySpawner := es4, powerUpSpawner := ps5\<rparr>;
          (eng6, w6) = handleCollisions eng5 w5;
          eng7 = cleanupInactiveObjects eng6;
          eng8 = updateExplosions eng7 deltaTime;
          eng9 = checkGameOverConditions eng8
      in (eng9, gameState eng9, w6))"

section \<open>The game's configuration and player (components/Game.tsx)\<close>

text \<open>
  \<open>GAME_CONFIG\<close> takes the screen size from the device window; the local player is
  the object that \<open>startSinglePlayerGame\<close> hands to \<open>addPlayer\<close>.
\<close>

definition GAME_CONFIG :: "real \<Rightarrow> real \<Rightarrow> GameConfig" where
  "GAME_CONFIG windowWidth windowHeight =
     \<lparr>screenWidth = windowWidth, screenHeight = windowHeight, playerSpeed = 200,
      bulletSpeed = 300, enemySpeed = 100, spawnRate = 2000, difficulty = MEDIUM\<rparr>"

definition localPlayer :: "Position \<Rightarrow> Player" where
  "localPlayer playerPosition =
     \<lparr>ident = Named ''local_player'', position = playerPosition,
      velocity = \<lparr>vx = 0, vy = 0\<rparr>, extent = \<lparr>width = 40, height = 40\<rparr>,
      rotation = 0, health = 100, maxHealth = 100, isActive = True,
      playerId = Named ''local_player'', playerName = ''Player'', score = 0, lives = 3,
      weaponType = BASIC_WEAPON, powerUps = [], isLocalPlayer = True\<rparr>"

text \<open>A world whose clock stands still at \<open>t\<close> and whose random source repeats \<open>r\<close>.\<close>

definition steadyWorld :: "real \<Rightarrow> real \<Rightarrow> World" where
  "steadyWorld t r = \<lparr>clock = (\<lambda>n. t), clockReads = 0, entropy = (\<lambda>n. r), draws = 0\<rparr>"

text \<open>A bare game object with the given centre, size and activity.\<close>

definition box :: "real \<Rightarrow> real \<Rightarrow> real \<Rightarrow> real \<Rightarrow> bool \<Rightarrow> GameObject" where
  "box cx cy w h act =
     \<lparr>ident = Named ''box'', position = \<lparr>px = cx, py = cy\<rparr>,
      velocity = \<lparr>vx = 0, vy = 0\<rparr>, extent = \<lparr>width = w, height = h\<rparr>,
      rotation = 0, health = 1, maxHealth = 1, isActive = act\<rparr>"

text \<open>
  A freshly constructed engine for a 400 by 800 window, with the given players and status.
\<close>

definition sampleEngine :: "Player list \<Rightarrow> GameStatus \<Rightarrow> GameEngine" where
  "sampleEngine ps st =
     (let eng = fst (GameEngine_new (GAME_CONFIG 400 800) (steadyWorld 0 0))
      in eng\<lparr>gameState := (gameState eng)\<lparr>players := ps, gameStatus := st\<rparr>\<rparr>)"

section \<open>Notions of the specification and sample objects\<close>



text \<open>
  A basic enemy as the spawner of a new engine creates it (wave 1), moved to the
  given position, and a player bullet as \<open>createBullet\<close> makes it.
\<close>

definition sampleEnemy :: "Position \<Rightarrow> Enemy" where
  "sampleEnemy pos =
     (fst (createEnemy (enemySpawner (sampleEngine [] PLAYING)) BASIC (steadyWorld 0 0)))
       \<lparr>position := pos\<rparr>"

definition sampleBullet :: "Position \<Rightarrow> BulletType \<Rightarrow> Bullet" where
  "sampleBullet pos btype =
     fst (createBullet (sampleEngine [localPlayer \<lparr>px = 200, py = 700\<rparr>] PLAYING) pos
            \<lparr>vx = 0, vy = - 300\<rparr> (Named ''local_player'') btype (steadyWorld 0 0))"

text \<open>
  The playfield rectangle of the specification for an object:
  \<open>[halfWidth, screenWidth - halfWidth] \<times> [halfHeight, screenHeight - halfHeight]\<close>.
  The rectangle is empty for an object wider or taller than the screen.
\<close>

definition inPlayfield :: "GameConfig \<Rightarrow> 'a GameObject_scheme \<Rightarrow> bool" where
  "inPlayfield cfg obj =
     (width (extent obj) / 2 \<le> px (position obj)
      \<and> px (position obj) \<le> screenWidth cfg - width (extent obj) / 2
      \<and> height (extent obj) / 2 \<le> py (position obj)
      \<and> py (position obj) \<le> screenHeight cfg - height (extent obj) / 2)"

text \<open>The two sides of the rectangle on each axis.\<close>

definition inPlayfieldX :: "GameConfig \<Rightarrow> 'a GameObject_scheme \<Rightarrow> bool" where
  "inPlayfieldX cfg obj =
     (width (extent obj) / 2 \<le> px (position obj)
      \<and> px (position obj) \<le> screenWidth cfg - width (extent obj) / 2)"

definition inPlayfieldY :: "GameConfig \<Rightarrow> 'a GameObject_scheme \<Rightarrow> bool" where
  "inPlayfieldY cfg obj =
     (height (extent obj) / 2 \<le> py (position obj)
      \<and> py (position obj) \<le> screenHeight cfg - height (extent obj) / 2)"

definition atRest :: "'a GameObject_scheme \<Rightarrow> bool" where
  "atRest obj = (vx (velocity obj) = 0 \<and> vy (velocity obj) = 0)"

text \<open>The rotation that \<open>updateGameObject\<close> gives a moving object.\<close>

definition heading :: "'a GameObject_scheme \<Rightarrow> real" where
  "heading obj = atan2 (vy (velocity obj)) (vx (velocity obj)) + pi / 2"

text \<open>A playing game state with the given players and enemies and nothing else.\<close>

definition sampleState :: "Player list \<Rightarrow> Enemy list \<Rightarrow> GameState" where
  "sampleState ps es = initialGameState\<lparr>players := ps, enemies := es, gameStatus := PLAYING\<rparr>"

text \<open>
  What a zero-length step does to an object, from the object before to the object after:
  the position stays, and the rotation stays unless the object is active and moving, in
  which case it becomes the heading of the velocity.
\<close>

definition zeroStep :: "'a GameObject_scheme \<Rightarrow> 'a GameObject_scheme \<Rightarrow> bool" where
  "zeroStep before after =
     (position after = position before
      \<and> rotation after = (if isActive before \<and> \<not> atRest before then heading before
                          else rotation before))"

text \<open>
  The same for a player. An active player is still clamped to the screen, which leaves a
  player within the playfield where it is.
\<close>

definition zeroStepPlayer :: "GameConfig \<Rightarrow> Player \<Rightarrow> Player \<Rightarrow> bool" where
  "zeroStepPlayer cfg before after =
     (position after = (if isActive before then position (constrainToScreen cfg before)
                        else position before)
      \<and> (\<not> isActive before \<or> inPlayfield cfg before \<longrightarrow> position after = position before)
      \<and> rotation after = (if isActive before \<and> \<not> atRest before then heading before
                          else rotation before))"

text \<open>
  The same for a power-up, for which the update reads the clock: \<open>now\<close> is that
  reading. The \<open>y\<close> of an active power-up takes the floating offset
  \<open>0.5 \<sdot> sin (0.005 \<sdot> now)\<close> even when no time has passed.
\<close>

definition zeroStepPowerUp :: "real \<Rightarrow> PowerUp \<Rightarrow> PowerUp \<Rightarrow> bool" where
  "zeroStepPowerUp now before after =
     (px (position after) = px (position before)
      \<and> py (position after) = (if isActive before
                                then py (position before) + sin (now * 0.005) * 0.5
                                else py (position before))
      \<and> rotation after = (if isActive before \<and> \<not> atRest before then heading before
                          else rotation before))"

text \<open>
  The power-ups of a state before and after a zero-length step. The update reads the
  clock once for every active power-up, in the order of the collection: with
  \<open>readings\<close> the clock of the world and \<open>n\<close> the number of readings made before
  the first power-up, the \<open>k\<close>-th active power-up gets the reading \<open>n + k\<close>.
\<close>

fun zeroStepPowerUps :: "(nat \<Rightarrow> real) \<Rightarrow> nat \<Rightarrow> PowerUp list \<Rightarrow> PowerUp list \<Rightarrow> bool" where
  "zeroStepPowerUps readings n [] [] = True"
| "zeroStepPowerUps readings n (u # us) (u' # us') =
     (zeroStepPowerUp (readings n) u u'
      \<and> zeroStepPowerUps readings (if isActive u then Suc n else n) us us')"
| "zeroStepPowerUps readings n [] (u' # us') = False"
| "zeroStepPowerUps readings n (u # us) [] = False"

text \<open>
  The world as the enemy loop of a physics update leaves it: the power-up loop starts
  reading the clock there.
\<close>

definition enemyLoopWorld :: "GameConfig \<Rightarrow> GameState \<Rightarrow> real \<Rightarrow> World \<Rightarrow> World" where
  "enemyLoopWorld cfg gs deltaTime w =
     snd (snd (updateEnemies cfg (deltaTime / 1000) (enemies gs)
                 (gs\<lparr>players := map (updatePlayer cfg (deltaTime / 1000)) (players gs)\<rparr>) w))"

text \<open>A health power-up as the power-up spawner of a new engine creates it.\<close>

definition samplePowerUp :: PowerUp where
  "samplePowerUp =
     fst (createPowerUp (powerUpSpawner (sampleEngine [] PLAYING)) HEALTH (steadyWorld 0 0))"

section \<open>Runs of the enemy spawner\<close>

text \<open>
  The condition of the specification for a new wave, at clock reading \<open>now\<close>: no enemy
  of the state is active, the inter-wave delay has elapsed since the last wave start, and
  the quota of the current wave has been spawned.
\<close>

definition newWaveDue :: "EnemySpawner \<Rightarrow> GameState \<Rightarrow> real \<Rightarrow> bool" where
  "newWaveDue sp gs now =
     ((\<forall>e \<in> set (enemies gs). \<not> isActive e)
      \<and> now - lastWaveTime sp > timeBetweenWaves sp
      \<and> enemiesInCurrentWave sp \<ge> maxEnemiesPerWave sp)"

text \<open>
  The public methods of the spawner that change it. A run is a list of calls, made by
  any caller with any game state and at any times.
\<close>

datatype SpawnerCall = Update GameState real | SetDifficulty string | Reset

text \<open>
  One record per boss that a run creates: the index of the wave in the run (waves are
  counted from 0; a wave ends when \<open>startNewWave\<close> or \<open>reset\<close> begins the next),
  the wave number at the creation, the regular enemies spawned so far in the wave and the
  quota at that moment, and the boss itself.
\<close>

record BossEvent =
  beWave :: nat
  beWaveNumber :: int
  beSpawned :: int
  beQuota :: int
  beBoss :: Enemy

text \<open>
  The bosses of a run, in order. The spawner at the boss check of an update is the
  spawner after the new-wave step of that update; the bosses are the enemies of type
  \<open>boss\<close> among those that the update returns.
\<close>

fun spawnerRun :: "EnemySpawner \<Rightarrow> World \<Rightarrow> nat \<Rightarrow> SpawnerCall list \<Rightarrow> BossEvent list" where
  "spawnerRun sp w k [] = []"
| "spawnerRun sp w k (Update gs dt # calls) =
     (let (created, sp', w') = EnemySpawner_update sp gs dt w;
          atCheck = fst (waveStep sp gs (fst (Date_now w)) (snd (Date_now w)));
          k' = (if waveNumber sp' \<noteq> waveNumber sp then Suc k else k)
      in map (\<lambda>boss. \<lparr>beWave = k', beWaveNumber = waveNumber atCheck,
                        beSpawned = enemiesInCurrentWave atCheck,
                        beQuota = maxEnemiesPerWave atCheck, beBoss = boss\<rparr>)
             (filter (\<lambda>e. enemyType e = BOSS) created)
         @ spawnerRun sp' w' k' calls)"
| "spawnerRun sp w k (SetDifficulty name # calls) = spawnerRun (setDifficulty sp name) w k calls"
| "spawnerRun sp w k (Reset # calls) =
     (let (sp', w') = EnemySpawner_reset sp w in spawnerRun sp' w' (Suc k) calls)"

text \<open>
  What the specification asks of every boss creation: the wave number is divisible by 5,
  at least 80% of the quota has been spawned, and the boss has the circular attack
  pattern and starts horizontally centred, above the screen.
\<close>

definition bossEventOk :: "GameConfig \<Rightarrow> BossEvent \<Rightarrow> bool" where
  "bossEventOk cfg ev =
     (beWaveNumber ev mod 5 = 0
      \<and> real_of_int (beSpawned ev) \<ge> real_of_int (beQuota ev) * 0.8
      \<and> enemyType (beBoss ev) = BOSS
      \<and> attackPattern (beBoss ev) = CIRCULAR
      \<and> px (position (beBoss ev)) = screenWidth cfg / 2
      \<and> py (position (beBoss ev)) < 0)"

section \<open>The engine's life cycle and its reachable states\<close>

text \<open>
  The remaining public methods of \<open>GameEngine\<close>. \<open>requestAnimationFrame\<close>
  belongs to the host and returns the handle of the scheduled frame; the handle is a
  parameter here.
\<close>

definition startGameLoop :: "GameEngine \<Rightarrow> nat \<Rightarrow> GameEngine" where
  "startGameLoop eng frame = eng\<lparr>gameLoopId := Some frame\<rparr>"

definition startGame :: "GameEngine \<Rightarrow> bool \<Rightarrow> nat \<Rightarrow> World \<Rightarrow> GameEngine \<times> World" where
  "startGame eng multiplayer frame w =
     (let eng1 = eng\<lparr>gameState := (gameState eng)
                   \<lparr>gameStatus := PLAYING, isMultiplayer := multiplayer, isPaused := False\<rparr>\<rparr>;
          (t, w1) = Date_now w
      in (startGameLoop (eng1\<lparr>lastUpdateTime := t\<rparr>) frame, w1))"

definition pauseGame :: "GameEngine \<Rightarrow> GameEngine" where
  "pauseGame eng =
     stopGameLoop (eng\<lparr>gameState := (gameState eng)\<lparr>isPaused := True, gameStatus := PAUSED\<rparr>\<rparr>)"

definition resumeGame :: "GameEngine \<Rightarrow> nat \<Rightarrow> World \<Rightarrow> GameEngine \<times> World" where
  "resumeGame eng frame w =
     (let eng1 = eng\<lparr>gameState := (gameState eng)\<lparr>isPaused := False, gameStatus := PLAYING\<rparr>\<rparr>;
          (t, w1) = Date_now w
      in (startGameLoop (eng1\<lparr>lastUpdateTime := t\<rparr>) frame, w1))"

definition stopGame :: "GameEngine \<Rightarrow> GameEngine" where
  "stopGame eng = stopGameLoop (eng\<lparr>gameState := (gameState eng)\<lparr>gameStatus := GAME_OVER\<rparr>\<rparr>)"

text \<open>
  \<open>dispose\<close> stops the loop and has the sound manager unload its sounds, which
  leaves the log of cues as it is.
\<close>

definition dispose :: "GameEngine \<Rightarrow> GameEngine" where
  "dispose eng = stopGameLoop eng"

text \<open>
  The callback \<open>gameLoop\<close> that the host runs for a scheduled frame: one tick while
  the game is playing and not paused, then the next frame is requested.
\<close>

definition gameLoop :: "GameEngine \<Rightarrow> nat \<Rightarrow> World \<Rightarrow> GameEngine \<times> World" where
  "gameLoop eng frame w =
     (if gameStatus (gameState eng) = PLAYING \<and> \<not> isPaused (gameState eng)
      then (let (eng', snapshot, w') = GameEngine_update eng w
            in (eng'\<lparr>gameLoopId := Some frame\<rparr>, w'))
      else (eng, w))"

text \<open>
  The engines that a program can have: a new engine, changed by any sequence of calls of
  the public methods and of frames of the game loop, at any readings of the clock and
  the random source. Players enter through \<open>addPlayer\<close> only; its two callers
  (\<open>startSinglePlayerGame\<close> and \<open>startMultiplayerGame\<close> in components/Game.tsx)
  pass a player with 3 lives and size 40 by 40, and the rule asks no more of the player
  than these two fields.
\<close>

inductive reachable :: "GameEngine \<Rightarrow> bool" where
  constructed: "reachable (fst (GameEngine_new cfg w))"
| added: "reachable eng \<Longrightarrow> lives player = 3 \<Longrightarrow> extent player = \<lparr>width = 40, height = 40\<rparr>
            \<Longrightarrow> reachable (addPlayer eng player)"
| removed: "reachable eng \<Longrightarrow> reachable (removePlayer eng pid)"
| moved: "reachable eng \<Longrightarrow> reachable (updatePlayerPosition eng pid pos)"
| shot: "reachable eng \<Longrightarrow> reachable (fst (playerShoot eng pid w))"
| started: "reachable eng \<Longrightarrow> reachable (fst (startGame eng multiplayer frame w))"
| paused: "reachable eng \<Longrightarrow> reachable (pauseGame eng)"
| resumed: "reachable eng \<Longrightarrow> reachable (fst (resumeGame eng frame w))"
| stopped: "reachable eng \<Longrightarrow> reachable (stopGame eng)"
| disposed: "reachable eng \<Longrightarrow> reachable (dispose eng)"
| frame: "reachable eng \<Longrightarrow> reachable (fst (gameLoop eng frame w))"

text \<open>
  What holds of every player of a reachable engine: the lives are a whole number, an
  active player has at least one, and the size is 40 by 40.
\<close>

definition playerOk :: "Player \<Rightarrow> bool" where
  "playerOk p =
     (lives p \<in> \<int> \<and> (isActive p \<longrightarrow> 1 \<le> lives p) \<and> extent p = \<lparr>width = 40, height = 40\<rparr>)"

section \<open>The hits of a tick\<close>

text \<open>
  The first part of \<open>update\<close>, up to the call of \<open>handleCollisions\<close>: the engine
  on which the collisions of the tick are resolved, the \<open>deltaTime\<close> of the tick and
  the world.
\<close>

definition collisionStage :: "GameEngine \<Rightarrow> World \<Rightarrow> GameEngine \<times> real \<times> World" where
  "collisionStage eng w =
     (let (currentTime, w1) = Date_now w;
          deltaTime = currentTime - lastUpdateTime eng;
          eng1 = eng\<lparr>lastUpdateTime := currentTime\<rparr>;
          eng2 = eng1\<lparr>gameState := (gameState eng1)
                       \<lparr>timeElapsed := timeElapsed (gameState eng1) + deltaTime\<rparr>\<rparr>;
          (gs3, w3) = PhysicsEngine_update (config eng2) (gameState eng2) deltaTime w1;
          (newEnemies, es4, w4) = EnemySpawner_update (enemySpawner eng2) gs3 deltaTime w3;
          gs4 = gs3\<lparr>enemies := enemies gs3 @ newEnemies\<rparr>;
          (newPowerUps, ps5, w5) = PowerUpSpawner_update (powerUpSpawner eng2) gs4 deltaTime w4;
          gs5 = gs4\<lparr>gsPowerUps := gsPowerUps gs4 @ newPowerUps\<rparr>;
          eng5 = eng2\<lparr>gameState := gs5, enemySpawner := es4, powerUpSpawner := ps5\<rparr>
      in (eng5, deltaTime, w5))"

text \<open>
  The calls that the nested loops make to their body, in order: each entry is the two
  objects and the state as the body receives them. \<open>innerCalls\<close> follows
  \<open>forEachInner\<close> and \<open>outerCalls\<close> follows \<open>forEachOuter\<close>, whose \<open>row\<close>
  it runs to get the objects and the state for the next row.
\<close>

fun innerCalls ::
  "('a \<Rightarrow> 'b \<Rightarrow> 's \<Rightarrow> 'a \<times> 'b \<times> 's) \<Rightarrow> 'a \<Rightarrow> 'b list \<Rightarrow> 's \<Rightarrow> ('a \<times> 'b \<times> 's) list" where
  "innerCalls body a [] s = []"
| "innerCalls body a (b # bs) s =
     (a, b, s) # (let (a1, b1, s1) = body a b s in innerCalls body a1 bs s1)"







section \<open>A game in progress\<close>



section \<open>Clamping and a player at the wall\<close>

text \<open>
  The tests of \<open>constrainToScreen\<close>: whether it clamps the object on the X axis, and
  on the Y axis.
\<close>

definition clampsX :: "GameConfig \<Rightarrow> 'a GameObject_scheme \<Rightarrow> bool" where
  "clampsX cfg obj =
     (px (position obj) - width (extent obj) / 2 < 0
      \<or> px (position obj) + width (extent obj) / 2 > screenWidth cfg)"

definition clampsY :: "GameConfig \<Rightarrow> 'a GameObject_scheme \<Rightarrow> bool" where
  "clampsY cfg obj =
     (py (position obj) - height (extent obj) / 2 < 0
      \<or> py (position obj) + height (extent obj) / 2 > screenHeight cfg)"

text \<open>
  A new engine for a 400 by 800 window whose local player has been sent to
  \<open>x = 10\<close> by \<open>updatePlayerPosition\<close>, and a game state whose player flies to the
  left at 200 a second from \<open>x = 21\<close>.
\<close>

definition corneredGame :: GameEngine where
  "corneredGame =
     updatePlayerPosition
       (addPlayer (fst (GameEngine_new (GAME_CONFIG 400 800) (steadyWorld 0 0)))
          (localPlayer \<lparr>px = 200, py = 700\<rparr>))
       (Named ''local_player'') \<lparr>px = 10, py = 700\<rparr>"

definition flyingPlayer :: Player where
  "flyingPlayer = (localPlayer \<lparr>px = 21, py = 700\<rparr>)\<lparr>velocity := \<lparr>vx = - 200, vy = 0\<rparr>\<rparr>"

section \<open>Properties of the collision test\<close>

lemma checkCollision_inactive:
  "\<not> isActive a \<or> \<not> isActive b \<Longrightarrow> \<not> checkCollision a b"
  by (simp add: checkCollision_def)

lemma checkCollision_active:
  "isActive a \<Longrightarrow> isActive b \<Longrightarrow> checkCollision a b = strictOverlap a b"
  by (simp add: checkCollision_def checkAABBCollision_def strictOverlap_def
      boxLeft_def boxRight_def boxTop_def boxBottom_def Let_def)

lemma strictOverlap_centres:
  "strictOverlap a b \<longleftrightarrow>
     \<bar>px (position a) - px (position b)\<bar> < (width (extent a) + width (extent b)) / 2
     \<and> \<bar>py (position a) - py (position b)\<bar> < (height (extent a) + height (extent b)) / 2"
  unfolding strictOverlap_def boxLeft_def boxRight_def boxTop_def boxBottom_def
  by argo

lemma strictOverlap_sym: "strictOverlap a b = strictOverlap b a"
  unfolding strictOverlap_def by blast

lemma checkCollision_sym: "checkCollision a b = checkCollision b a"
proof (cases "isActive a \<and> isActive b")
  case True
  then have "checkCollision a b = strictOverlap a b" "checkCollision b a = strictOverlap b a"
    by (simp_all add: checkCollision_active)
  then show ?thesis using strictOverlap_sym [of a b] by simp
next
  case False
  then have "\<not> checkCollision a b" "\<not> checkCollision b a"
    by (auto simp: checkCollision_def)
  then show ?thesis by simp
qed

lemma edgesTouch_no_overlap: "edgesTouch a b \<Longrightarrow> \<not> strictOverlap a b"
  unfolding edgesTouch_def strictOverlap_def by linarith

text \<open>
  Claim C5. \<open>checkCollision a b\<close> is false whenever either object is inactive; for two
  active objects it is true exactly when their bounding boxes (centred on the position,
  full extents equal to the size) overlap strictly on both axes; boxes whose edges merely
  touch do not collide.
\<close>

theorem C5_checkCollision_strict_aabb:
  "checkCollision a b = (isActive a \<and> isActive b \<and> strictOverlap a b)
   \<and> (edgesTouch a b \<longrightarrow> \<not> checkCollision a b)"
proof (cases "isActive a \<and> isActive b")
  case True
  then have "checkCollision a b = strictOverlap a b"
    by (simp add: checkCollision_active)
  with True show ?thesis
    using edgesTouch_no_overlap [of a b] by auto
next
  case False
  then have "\<not> checkCollision a b"
    by (auto simp: checkCollision_def)
  with False show ?thesis by auto
qed

text \<open>
  Two active 10 by 10 boxes centred at \<open>(0, 0)\<close> and \<open>(10, 0)\<close> share the edge
  \<open>x = 5\<close> and do not collide.
\<close>

theorem C5_checkCollision_touching_witness:
  "edgesTouch (box 0 0 10 10 True) (box 10 0 10 10 True)
   \<and> \<not> checkCollision (box 0 0 10 10 True) (box 10 0 10 10 True)"
proof -
  have t: "edgesTouch (box 0 0 10 10 True) (box 10 0 10 10 True)"
    by (simp add: edgesTouch_def box_def boxLeft_def boxRight_def boxTop_def boxBottom_def)
  with C5_checkCollision_strict_aabb [of "box 0 0 10 10 True" "box 10 0 10 10 True"]
  show ?thesis by blast
qed

section \<open>Player commands\<close>

lemma sampleEngine_players [simp]: "players (gameState (sampleEngine ps st)) = ps"
  by (simp add: sampleEngine_def Let_def)

lemma sampleEngine_status [simp]: "gameStatus (gameState (sampleEngine ps st)) = st"
  by (simp add: sampleEngine_def Let_def)

lemma find_no_match:
  "pid \<notin> playerId ` set ps \<Longrightarrow> find (\<lambda>p. playerId p = pid) ps = None"
  by (auto simp: find_None_iff)

text \<open>
  Claim C8. When no player of the state has the given \<open>playerId\<close>,
  \<open>updatePlayerPosition\<close> and \<open>playerShoot\<close> change nothing: the engine, and with
  it the whole game state, is returned as it was, and the world is not read. The source
  has no failing path in either method, so neither has the model.
\<close>

theorem C8_lookup_miss_is_noop:
  assumes "pid \<notin> playerId ` set (players (gameState eng))"
  shows "updatePlayerPosition eng pid pos = eng \<and> playerShoot eng pid w = (eng, w)"
  using find_no_match [OF assms]
  by (simp add: updatePlayerPosition_def playerShoot_def)

theorem C8_lookup_miss_witness:
  "Named ''ghost'' \<notin> playerId `
      set (players (gameState (sampleEngine [localPlayer \<lparr>px = 200, py = 700\<rparr>] PLAYING)))
   \<and> updatePlayerPosition (sampleEngine [localPlayer \<lparr>px = 200, py = 700\<rparr>] PLAYING)
         (Named ''ghost'') \<lparr>px = 1, py = 2\<rparr>
       = sampleEngine [localPlayer \<lparr>px = 200, py = 700\<rparr>] PLAYING
   \<and> playerShoot (sampleEngine [localPlayer \<lparr>px = 200, py = 700\<rparr>] PLAYING)
         (Named ''ghost'') (steadyWorld 0 0)
       = (sampleEngine [localPlayer \<lparr>px = 200, py = 700\<rparr>] PLAYING, steadyWorld 0 0)"
proof -
  have h: "Named ''ghost'' \<notin> playerId `
      set (players (gameState (sampleEngine [localPlayer \<lparr>px = 200, py = 700\<rparr>] PLAYING)))"
    by (simp add: localPlayer_def)
  from C8_lookup_miss_is_noop [OF h] h show ?thesis by blast
qed

text \<open>
  Claim C10. For a player whose weapon is neither \<open>basic\<close> nor \<open>spreadShot\<close>,
  \<open>createPlayerBullets\<close> returns no bullet, so \<open>playerShoot\<close> appends none and
  leaves the game state as it was, whatever the game status, \<open>playing\<close> included.
\<close>

theorem C10_other_weapons_fire_nothing:
  assumes "find (\<lambda>p. playerId p = pid) (players (gameState eng)) = Some player"
    and "weaponType player \<noteq> BASIC_WEAPON" and "weaponType player \<noteq> SPREAD_SHOT"
  shows "createPlayerBullets eng player w = ([], w)
         \<and> bullets (gameState (fst (playerShoot eng pid w))) = bullets (gameState eng)
         \<and> gameState (fst (playerShoot eng pid w)) = gameState eng"
proof -
  have c: "createPlayerBullets eng player w = ([], w)"
    using assms(2,3) by (cases "weaponType player") (simp_all add: createPlayerBullets_def)
  show ?thesis
    using assms(1) c by (simp add: playerShoot_def)
qed

theorem C10_laser_player_witness:
  "gameStatus (gameState (sampleEngine [(localPlayer \<lparr>px = 200, py = 700\<rparr>)
        \<lparr>weaponType := LASER_WEAPON\<rparr>] PLAYING)) = PLAYING
   \<and> bullets (gameState (fst (playerShoot
        (sampleEngine [(localPlayer \<lparr>px = 200, py = 700\<rparr>)\<lparr>weaponType := LASER_WEAPON\<rparr>] PLAYING)
        (Named ''local_player'') (steadyWorld 0 0))))
      = bullets (gameState
        (sampleEngine [(localPlayer \<lparr>px = 200, py = 700\<rparr>)\<lparr>weaponType := LASER_WEAPON\<rparr>] PLAYING))"
proof -
  let ?p = "(localPlayer \<lparr>px = 200, py = 700\<rparr>)\<lparr>weaponType := LASER_WEAPON\<rparr>"
  have f: "find (\<lambda>p. playerId p = Named ''local_player'')
             (players (gameState (sampleEngine [?p] PLAYING))) = Some ?p"
    by (simp add: localPlayer_def)
  have w1: "weaponType ?p \<noteq> BASIC_WEAPON" and w2: "weaponType ?p \<noteq> SPREAD_SHOT"
    by simp_all
  from C10_other_weapons_fire_nothing [OF f w1 w2] show ?thesis by simp
qed

section \<open>The tick\<close>

lemmas world_defs = Date_now_def Math_random_def freshId_def steadyWorld_def

lemma checkGameOver_collections:
  "players (gameState (checkGameOverConditions eng)) = players (gameState eng)"
  "enemies (gameState (checkGameOverConditions eng)) = enemies (gameState eng)"
  "bullets (gameState (checkGameOverConditions eng)) = bullets (gameState eng)"
  "gsPowerUps (gameState (checkGameOverConditions eng)) = gsPowerUps (gameState eng)"
  by (simp_all add: checkGameOverConditions_def stopGameLoop_def Let_def split: option.split)

lemma updateExplosions_collections:
  "players (gameState (updateExplosions eng dt)) = players (gameState eng)"
  "enemies (gameState (updateExplosions eng dt)) = enemies (gameState eng)"
  "bullets (gameState (updateExplosions eng dt)) = bullets (gameState eng)"
  "gsPowerUps (gameState (updateExplosions eng dt)) = gsPowerUps (gameState eng)"
  by (simp_all add: updateExplosions_def)

lemma cleanup_collections:
  "players (gameState (cleanupInactiveObjects eng)) = filter isActive (players (gameState eng))"
  "enemies (gameState (cleanupInactiveObjects eng)) = filter isActive (enemies (gameState eng))"
  "bullets (gameState (cleanupInactiveObjects eng)) = filter isActive (bullets (gameState eng))"
  "gsPowerUps (gameState (cleanupInactiveObjects eng))
     = filter isActive (gsPowerUps (gameState eng))"
  by (simp_all add: cleanupInactiveObjects_def)

text \<open>
  The last three passes of a tick are the cleanup, the ageing of the explosions and the
  game-over check, in this order, and the snapshot is the state they leave.
\<close>

lemma update_shape:
  assumes "GameEngine_update eng w = (eng', snapshot, w')"
  shows "snapshot = gameState eng'"
    and "\<exists>eng6 dt. eng' = checkGameOverConditions
                             (updateExplosions (cleanupInactiveObjects eng6) dt)"
  using assms
  by (auto simp: GameEngine_update_def Let_def split: prod.splits)

text \<open>
  Claim C9. After a tick, every object left in the players, enemies, bullets and
  power-ups of the engine's state is active, and the snapshot handed to the state-update
  callback is that state: the cleanup filters the four collections and the two passes
  after it touch neither the collections nor any activity flag.
\<close>

theorem C9_no_inactive_entity_survives_a_tick:
  assumes "GameEngine_update eng w = (eng', snapshot, w')"
  shows "snapshot = gameState eng'
         \<and> (\<forall>p \<in> set (players snapshot). isActive p)
         \<and> (\<forall>e \<in> set (enemies snapshot). isActive e)
         \<and> (\<forall>b \<in> set (bullets snapshot). isActive b)
         \<and> (\<forall>u \<in> set (gsPowerUps snapshot). isActive u)"
proof -
  from update_shape [OF assms] obtain eng6 dt where
    s: "snapshot = gameState eng'" and
    e: "eng' = checkGameOverConditions (updateExplosions (cleanupInactiveObjects eng6) dt)"
    by blast
  show ?thesis
    unfolding s e
    by (simp add: checkGameOver_collections updateExplosions_collections cleanup_collections)
qed

text \<open>
  A tick of an engine that holds the game's local player and a second, deactivated
  player: the deactivated one is gone from the snapshot, the other is kept.
\<close>

lemma sample_tick_players:
  "players (gameState (fst (GameEngine_update
      (sampleEngine [localPlayer \<lparr>px = 200, py = 700\<rparr>,
                     (localPlayer \<lparr>px = 100, py = 700\<rparr>)\<lparr>isActive := False\<rparr>] PLAYING)
      (steadyWorld 0 0))))
   = [localPlayer \<lparr>px = 200, py = 700\<rparr>]"
  by (simp add: GameEngine_update_def sampleEngine_def GameEngine_new_def EnemySpawner_new_def
      PowerUpSpawner_new_def initialGameState_def GAME_CONFIG_def world_defs Let_def
      PhysicsEngine_update_def updatePlayer_def updateGameObject_def constrainToScreen_def
      constrainX_def constrainY_def localPlayer_def EnemySpawner_update_def waveStep_def
      bossStep_def spawnStep_def shouldStartNewWave_def shouldSpawnBoss_def shouldSpawnEnemy_def
      PowerUpSpawner_update_def shouldSpawnPowerUp_def handleCollisions_def
      cleanupInactiveObjects_def updateExplosions_def checkGameOverConditions_def
      playerPowerUpBody_def playerEnemyBody_def bulletEnemyRow_def bulletPlayerRow_def)

theorem C9_sample_tick_witness:
  "players (fst (snd (GameEngine_update
      (sampleEngine [localPlayer \<lparr>px = 200, py = 700\<rparr>,
                     (localPlayer \<lparr>px = 100, py = 700\<rparr>)\<lparr>isActive := False\<rparr>] PLAYING)
      (steadyWorld 0 0))))
     = [localPlayer \<lparr>px = 200, py = 700\<rparr>]
   \<and> map isActive (players (fst (snd (GameEngine_update
      (sampleEngine [localPlayer \<lparr>px = 200, py = 700\<rparr>,
                     (localPlayer \<lparr>px = 100, py = 700\<rparr>)\<lparr>isActive := False\<rparr>] PLAYING)
      (steadyWorld 0 0))))) = [True]"
proof -
  define r where "r = GameEngine_update
      (sampleEngine [localPlayer \<lparr>px = 200, py = 700\<rparr>,
                     (localPlayer \<lparr>px = 100, py = 700\<rparr>)\<lparr>isActive := False\<rparr>] PLAYING)
      (steadyWorld 0 0)"
  have r: "r = (fst r, fst (snd r), snd (snd r))" by simp
  from C9_no_inactive_entity_survives_a_tick [OF r [unfolded r_def]]
  have a: "fst (snd r) = gameState (fst r)"
    and b: "\<forall>p \<in> set (players (fst (snd r))). isActive p"
    unfolding r_def by blast+
  from a sample_tick_players
  have c: "players (fst (snd r)) = [localPlayer \<lparr>px = 200, py = 700\<rparr>]"
    unfolding r_def by simp
  with b have "map isActive (players (fst (snd r))) = [True]" by simp
  with c show ?thesis unfolding r_def by simp
qed

section \<open>Collision handlers\<close>


lemma handlePlayerEnemy_player:
  "fst (handlePlayerEnemyCollision player enemy st) =
     (if health player - damage enemy \<le> 0
      then (if lives player - 1 \<le> 0
            then player\<lparr>health := maxHealth player, lives := lives player - 1, isActive := False\<rparr>
            else player\<lparr>health := maxHealth player, lives := lives player - 1\<rparr>)
      else player\<lparr>health := health player - damage enemy\<rparr>)"
  by (simp add: handlePlayerEnemyCollision_def Let_def split: prod.splits)

lemma handleBulletPlayer_player:
  "fst (snd (handleBulletPlayerCollision bullet player st)) =
     (if health player - bulletDamage bullet \<le> 0
      then (if lives player - 1 \<le> 0
            then player\<lparr>health := maxHealth player, lives := lives player - 1, isActive := False\<rparr>
            else player\<lparr>health := maxHealth player, lives := lives player - 1\<rparr>)
      else player\<lparr>health := health player - bulletDamage bullet\<rparr>)"
  by (simp add: handleBulletPlayerCollision_def Let_def)

text \<open>
  What the two handlers do to a player whose health is depleted, whatever the number of
  lives: one life is taken, the health is restored, and the player stays active exactly
  when a positive number of lives is left. That the lives do not go below zero is not a
  property of the handlers but of the players they meet: see the section on reachable
  engines.
\<close>

lemma depleting_hit_by_enemy:
  assumes "health player - damage enemy \<le> 0"
  shows "lives (fst (handlePlayerEnemyCollision player enemy st)) = lives player - 1"
    and "health (fst (handlePlayerEnemyCollision player enemy st)) = maxHealth player"
    and "isActive (fst (handlePlayerEnemyCollision player enemy st))
           \<longleftrightarrow> isActive player \<and> 0 < lives player - 1"
  using assms by (auto simp: handlePlayerEnemy_player)

lemma depleting_hit_by_bullet:
  assumes "health player - bulletDamage bullet \<le> 0"
  shows "lives (fst (snd (handleBulletPlayerCollision bullet player st))) = lives player - 1"
    and "health (fst (snd (handleBulletPlayerCollision bullet player st))) = maxHealth player"
    and "isActive (fst (snd (handleBulletPlayerCollision bullet player st)))
           \<longleftrightarrow> isActive player \<and> 0 < lives player - 1"
  using assms by (auto simp: handleBulletPlayer_player)

lemma playerEnemy_single:
  assumes "checkCollision player enemy"
  shows "fst (forEachInner playerEnemyBody player [enemy] st)
           = fst (handlePlayerEnemyCollision player enemy st)"
  using assms by (simp add: playerEnemyBody_def Let_def split: prod.splits)

lemma bulletPlayer_single:
  assumes "startsWith (bulletTypeValue (bulletType bullet)) ''enemy''"
    and "checkCollision bullet player"
  shows "fst (snd (bulletPlayerRow bullet [player] st))
           = [fst (snd (handleBulletPlayerCollision bullet player st))]"
  using assms by (simp add: bulletPlayerRow_def bulletPlayerBody_def Let_def split: prod.splits)

lemma sampleEnemy_fields:
  "health (sampleEnemy pos) = 10" "damage (sampleEnemy pos) = 10"
  "points (sampleEnemy pos) = 100" "isActive (sampleEnemy pos)"
  "position (sampleEnemy pos) = pos" "extent (sampleEnemy pos) = \<lparr>width = 30, height = 30\<rparr>"
  by (simp_all add: sampleEnemy_def createEnemy_def getRandomSpawnPosition_def getEnemyStats_def
      Math_floor_def getRandomAttackPattern_def sampleEngine_def GameEngine_new_def
      EnemySpawner_new_def PowerUpSpawner_new_def world_defs Let_def)

lemma sampleBullet_fields:
  "bulletDamage (sampleBullet pos t) = 10" "bulletType (sampleBullet pos t) = t"
  "isActive (sampleBullet pos t)" "position (sampleBullet pos t) = pos"
  "extent (sampleBullet pos t) = \<lparr>width = 4, height = 10\<rparr>"
  by (simp_all add: sampleBullet_def createBullet_def world_defs Let_def)



lemma createExplosion_eq:
  "gameState (fst (createExplosion pos sz eng w))
     = (gameState eng)\<lparr>explosions := explosions (gameState eng) @
         [\<lparr>explosionId = fst (freshId ''explosion'' w), explosionPosition = pos,
           explosionSize = \<lparr>width = sz, height = sz\<rparr>,
           explosionDuration = 500, currentFrame = 0, animationProgress = 0\<rparr>]\<rparr>"
  by (simp add: createExplosion_def Let_def split_def)

lemma handleBulletEnemy_objects:
  "fst (handleBulletEnemyCollision bullet enemy st) = bullet\<lparr>isActive := False\<rparr>"
  "fst (snd (handleBulletEnemyCollision bullet enemy st)) =
     (if health enemy - bulletDamage bullet \<le> 0
      then enemy\<lparr>health := health enemy - bulletDamage bullet, isActive := False\<rparr>
      else enemy\<lparr>health := health enemy - bulletDamage bullet\<rparr>)"
  by (simp_all add: handleBulletEnemyCollision_def Let_def split: prod.splits)

lemma handleBulletEnemy_lethal:
  assumes "health enemy - bulletDamage bullet \<le> 0"
  shows "\<exists>x. gameState (fst (snd (snd (handleBulletEnemyCollision bullet enemy (eng, w)))))
           = (gameState eng)\<lparr>gsScore := gsScore (gameState eng) + points enemy,
                               explosions := explosions (gameState eng) @ [x]\<rparr>
         \<and> explosionPosition x = position enemy"
proof -
  let ?eng1 = "eng\<lparr>gameState := (gameState eng)
                  \<lparr>gsScore := gsScore (gameState eng) + points enemy\<rparr>\<rparr>"
  have "gameState (fst (snd (snd (handleBulletEnemyCollision bullet enemy (eng, w)))))
          = gameState (fst (createExplosion (position enemy) 25 ?eng1 w))"
    using assms
    by (simp add: handleBulletEnemyCollision_def Let_def playExplosionSound_def split: prod.splits)
  then show ?thesis
    unfolding createExplosion_eq by (intro exI conjI) (simp, simp)
qed

lemma handleBulletEnemy_nonlethal:
  assumes "\<not> health enemy - bulletDamage bullet \<le> 0"
  shows "snd (snd (handleBulletEnemyCollision bullet enemy st)) = st"
  using assms by (simp add: handleBulletEnemyCollision_def Let_def)

lemma bulletEnemyRow_single:
  assumes "startsWith (bulletTypeValue (bulletType bullet)) ''player''"
    and "checkCollision bullet enemy"
  shows "bulletEnemyRow bullet [enemy] st =
     (fst (handleBulletEnemyCollision bullet enemy st),
      [fst (snd (handleBulletEnemyCollision bullet enemy st))],
      snd (snd (handleBulletEnemyCollision bullet enemy st)))"
  using assms by (simp add: bulletEnemyRow_def bulletEnemyBody_def Let_def split: prod.splits)

text \<open>The stats behind the scenario: a wave-1 basic enemy and a bullet of the engine.\<close>

lemma wave1_basic_enemy:
  assumes "waveNumber sp = 1"
  shows "health (fst (createEnemy sp BASIC w)) = 10"
    and "points (fst (createEnemy sp BASIC w)) = 100"
    and "enemyType (fst (createEnemy sp BASIC w)) = BASIC"
    and "isActive (fst (createEnemy sp BASIC w))"
  using assms
  by (simp_all add: createEnemy_def getEnemyStats_def Math_floor_def Let_def split_def)

lemma createBullet_damage:
  "bulletDamage (fst (createBullet eng pos vel owner btype w)) = 10"
  by (simp add: createBullet_def Let_def split_def)

text \<open>
  Claim C4. A player-originated bullet (its type starts with \<open>player\<close>) that collides
  with an active enemy takes its damage from the enemy's health and is deactivated; if
  the enemy's health is then 0 or below, the enemy is deactivated, the score grows by
  exactly the enemy's points and exactly one explosion is appended. The engine's bullets
  have damage 10 and a wave-1 basic enemy has health 10 and 100 points, so for these the
  first hit does all of this and adds 100 to the score.
\<close>

theorem C4_player_bullet_hits_enemy:
  assumes "startsWith (bulletTypeValue (bulletType bullet)) ''player''"
    and "checkCollision bullet enemy"
    and "bulletEnemyRow bullet [enemy] (eng, w) = (bullet', es', eng', w')"
  shows "\<exists>enemy'. es' = [enemy']
           \<and> health enemy' = health enemy - bulletDamage bullet
           \<and> \<not> isActive bullet'
           \<and> (health enemy' \<le> 0 \<longrightarrow>
                 \<not> isActive enemy'
                 \<and> gsScore (gameState eng') = gsScore (gameState eng) + points enemy
                 \<and> (\<exists>x. explosions (gameState eng') = explosions (gameState eng) @ [x]))
           \<and> (bulletDamage bullet = 10 \<and> health enemy = 10 \<and> points enemy = 100 \<longrightarrow>
                 \<not> isActive enemy'
                 \<and> gsScore (gameState eng') = gsScore (gameState eng) + 100
                 \<and> (\<exists>x. explosions (gameState eng') = explosions (gameState eng) @ [x]))
           \<and> bulletDamage (fst (createBullet eng0 pos vel owner PLAYER_BASIC w0)) = 10
           \<and> (waveNumber sp = 1 \<longrightarrow> health (fst (createEnemy sp BASIC w1)) = 10
                                      \<and> points (fst (createEnemy sp BASIC w1)) = 100)"
proof -
  let ?r = "handleBulletEnemyCollision bullet enemy (eng, w)"
  from bulletEnemyRow_single [OF assms(1,2), of "(eng, w)"] assms(3)
  have b: "bullet' = fst ?r" and e: "es' = [fst (snd ?r)]" and g: "(eng', w') = snd (snd ?r)"
    by simp_all
  from g have g': "eng' = fst (snd (snd ?r))" by (metis fst_conv)
  have lethal: "\<not> isActive (fst (snd ?r))
      \<and> gsScore (gameState eng') = gsScore (gameState eng) + points enemy
      \<and> (\<exists>x. explosions (gameState eng') = explosions (gameState eng) @ [x])"
    if "health enemy - bulletDamage bullet \<le> 0"
  proof -
    from handleBulletEnemy_lethal [OF that, of eng w] obtain x where
      "gameState eng' = (gameState eng)\<lparr>gsScore := gsScore (gameState eng) + points enemy,
                               explosions := explosions (gameState eng) @ [x]\<rparr>"
      unfolding g' by blast
    then show ?thesis using that by (simp add: handleBulletEnemy_objects)
  qed
  show ?thesis
  proof (intro exI [of _ "fst (snd ?r)"] conjI impI)
    show "es' = [fst (snd ?r)]" by (rule e)
    show "health (fst (snd ?r)) = health enemy - bulletDamage bullet"
      by (simp add: handleBulletEnemy_objects)
    show "\<not> isActive bullet'" by (simp add: b handleBulletEnemy_objects)
    show "bulletDamage (fst (createBullet eng0 pos vel owner PLAYER_BASIC w0)) = 10"
      by (rule createBullet_damage)
  next
    assume "health (fst (snd ?r)) \<le> 0"
    then have h: "health enemy - bulletDamage bullet \<le> 0"
      by (simp add: handleBulletEnemy_objects split: if_splits)
    from lethal [OF h]
    show "\<not> isActive (fst (snd ?r))"
      "gsScore (gameState eng') = gsScore (gameState eng) + points enemy"
      "\<exists>x. explosions (gameState eng') = explosions (gameState eng) @ [x]" by blast+
  next
    assume a: "bulletDamage bullet = 10 \<and> health enemy = 10 \<and> points enemy = 100"
    then have h: "health enemy - bulletDamage bullet \<le> 0" by simp
    from lethal [OF h] a
    show "\<not> isActive (fst (snd ?r))"
      "gsScore (gameState eng') = gsScore (gameState eng) + 100"
      "\<exists>x. explosions (gameState eng') = explosions (gameState eng) @ [x]" by auto
  next
    assume "waveNumber sp = 1"
    then show "health (fst (createEnemy sp BASIC w1)) = 10"
      "points (fst (createEnemy sp BASIC w1)) = 100"
      by (simp_all add: wave1_basic_enemy)
  qed
qed

text \<open>
  A bullet of the local player on top of a wave-1 basic enemy, in a new engine with score
  0 and no explosion: after the hit the enemy is inactive, the score is 100 and there is
  one explosion.
\<close>

theorem C4_first_hit_witness:
  "startsWith (bulletTypeValue (bulletType (sampleBullet \<lparr>px = 200, py = 100\<rparr> PLAYER_BASIC)))
      ''player''
   \<and> checkCollision (sampleBullet \<lparr>px = 200, py = 100\<rparr> PLAYER_BASIC)
        (sampleEnemy \<lparr>px = 200, py = 100\<rparr>)
   \<and> waveNumber (enemySpawner (sampleEngine [] PLAYING)) = 1
   \<and> (\<exists>enemy'. fst (snd (bulletEnemyRow (sampleBullet \<lparr>px = 200, py = 100\<rparr> PLAYER_BASIC)
          [sampleEnemy \<lparr>px = 200, py = 100\<rparr>] (sampleEngine [] PLAYING, steadyWorld 0 0)))
          = [enemy'] \<and> health enemy' = 0 \<and> \<not> isActive enemy')
   \<and> gsScore (gameState (fst (snd (snd (bulletEnemyRow
          (sampleBullet \<lparr>px = 200, py = 100\<rparr> PLAYER_BASIC)
          [sampleEnemy \<lparr>px = 200, py = 100\<rparr>] (sampleEngine [] PLAYING, steadyWorld 0 0)))))) = 100
   \<and> length (explosions (gameState (fst (snd (snd (bulletEnemyRow
          (sampleBullet \<lparr>px = 200, py = 100\<rparr> PLAYER_BASIC)
          [sampleEnemy \<lparr>px = 200, py = 100\<rparr>] (sampleEngine [] PLAYING, steadyWorld 0 0))))))) = 1"
proof -
  let ?b = "sampleBullet \<lparr>px = 200, py = 100\<rparr> PLAYER_BASIC"
  let ?e = "sampleEnemy \<lparr>px = 200, py = 100\<rparr>"
  let ?eng = "sampleEngine [] PLAYING"
  let ?w = "steadyWorld 0 0"
  let ?r = "bulletEnemyRow ?b [?e] (?eng, ?w)"
  have s: "startsWith (bulletTypeValue (bulletType ?b)) ''player''"
    by (simp add: sampleBullet_fields startsWith_def)
  have c: "checkCollision ?b ?e"
    by (simp add: checkCollision_def checkAABBCollision_def sampleBullet_fields
        sampleEnemy_fields)
  have r: "?r = (fst ?r, fst (snd ?r), fst (snd (snd ?r)), snd (snd (snd ?r)))" by simp
  have wv: "waveNumber (enemySpawner ?eng) = 1"
    by (simp add: sampleEngine_def GameEngine_new_def EnemySpawner_new_def Let_def split_def)
  have z: "gsScore (gameState ?eng) = 0" "explosions (gameState ?eng) = []"
    by (simp_all add: sampleEngine_def GameEngine_new_def initialGameState_def Let_def split_def)
  from C4_player_bullet_hits_enemy [OF s c r]
  obtain enemy' where
    e: "fst (snd ?r) = [enemy']" "health enemy' = health ?e - bulletDamage ?b"
    and k: "bulletDamage ?b = 10 \<and> health ?e = 10 \<and> points ?e = 100 \<longrightarrow>
                 \<not> isActive enemy'
                 \<and> gsScore (gameState (fst (snd (snd ?r)))) = gsScore (gameState ?eng) + 100
                 \<and> (\<exists>x. explosions (gameState (fst (snd (snd ?r))))
                           = explosions (gameState ?eng) @ [x])"
    by blast
  have "bulletDamage ?b = 10 \<and> health ?e = 10 \<and> points ?e = 100"
    by (simp add: sampleBullet_fields sampleEnemy_fields)
  with k have k': "\<not> isActive enemy'"
    "gsScore (gameState (fst (snd (snd ?r)))) = gsScore (gameState ?eng) + 100"
    "\<exists>x. explosions (gameState (fst (snd (snd ?r)))) = explosions (gameState ?eng) @ [x]"
    by blast+
  from e have h0: "health enemy' = 0" by (simp add: sampleBullet_fields sampleEnemy_fields)
  from k'(3) z(2) have len: "length (explosions (gameState (fst (snd (snd ?r))))) = 1" by auto
  from s c wv e(1) h0 k'(1) k'(2) z(1) len show ?thesis by simp
qed

section \<open>Physics\<close>

lemma handleEnemyShooting_frame:
  "players (fst (snd (handleEnemyShooting enemy gs dt w))) = players gs"
  "\<exists>extra. bullets (fst (snd (handleEnemyShooting enemy gs dt w))) = bullets gs @ extra"
  "position (fst (handleEnemyShooting enemy gs dt w)) = position enemy"
  "rotation (fst (handleEnemyShooting enemy gs dt w)) = rotation enemy"
  by (simp_all add: handleEnemyShooting_def Let_def split_def split: option.split)

lemma applyAttackPattern_frame:
  "position (fst (applyAttackPattern enemy gs w)) = position enemy"
  "rotation (fst (applyAttackPattern enemy gs w)) = rotation enemy"
  by (simp_all add: applyAttackPattern_def Let_def split_def
      split: AttackPattern.split option.split)

lemma updateEnemyBehavior_frame:
  "players (fst (snd (updateEnemyBehavior enemy gs dt w))) = players gs"
  "\<exists>extra. bullets (fst (snd (updateEnemyBehavior enemy gs dt w))) = bullets gs @ extra"
  "position (fst (updateEnemyBehavior enemy gs dt w)) = position enemy"
  "rotation (fst (updateEnemyBehavior enemy gs dt w)) = rotation enemy"
  by (simp_all add: updateEnemyBehavior_def split_def Let_def handleEnemyShooting_frame
      applyAttackPattern_frame)

lemma updateEnemies_players:
  "players (fst (snd (updateEnemies cfg ds es gs w))) = players gs"
  by (induction es arbitrary: gs w)
     (simp_all add: Let_def split_def updateEnemyBehavior_frame)

lemma updateEnemies_bullets:
  "\<exists>extra. bullets (fst (snd (updateEnemies cfg ds es gs w))) = bullets gs @ extra"
proof (induction es arbitrary: gs w)
  case Nil
  then show ?case by simp
next
  case (Cons e es)
  show ?case
  proof (cases "isActive e")
    case True
    let ?r = "updateEnemyBehavior (updateGameObject e ds) gs ds w"
    obtain x1 where x1: "bullets (fst (snd ?r)) = bullets gs @ x1"
      using updateEnemyBehavior_frame(2) by blast
    obtain x2 where "bullets (fst (snd (updateEnemies cfg ds es (fst (snd ?r)) (snd (snd ?r)))))
        = bullets (fst (snd ?r)) @ x2"
      using Cons.IH by blast
    with x1 True show ?thesis by (simp add: Let_def split_def)
  next
    case False
    with Cons.IH [of gs w] show ?thesis by (simp add: Let_def split_def)
  qed
qed

lemma physics_players:
  "players (fst (PhysicsEngine_update cfg gs dt w))
     = map (updatePlayer cfg (dt / 1000)) (players gs)"
  by (simp add: PhysicsEngine_update_def Let_def split_def updateEnemies_players)

lemma updateGameObject_frame:
  "extent (updateGameObject obj dt) = extent obj"
  "velocity (updateGameObject obj dt) = velocity obj"
  "isActive (updateGameObject obj dt) = isActive obj"
  by (simp_all add: updateGameObject_def Let_def)

lemma constrainToScreen_frame:
  "extent (constrainToScreen cfg obj) = extent obj"
  "isActive (constrainToScreen cfg obj) = isActive obj"
  by (simp_all add: constrainToScreen_def constrainX_def constrainY_def Let_def)

lemma inPlayfield_axes: "inPlayfield cfg obj = (inPlayfieldX cfg obj \<and> inPlayfieldY cfg obj)"
  by (auto simp: inPlayfield_def inPlayfieldX_def inPlayfieldY_def)

lemma constrainToScreen_inPlayfield:
  "width (extent obj) \<le> screenWidth cfg \<Longrightarrow> inPlayfieldX cfg (constrainToScreen cfg obj)"
  "height (extent obj) \<le> screenHeight cfg \<Longrightarrow> inPlayfieldY cfg (constrainToScreen cfg obj)"
  by (auto simp: inPlayfieldX_def inPlayfieldY_def constrainToScreen_def constrainX_def
      constrainY_def Let_def)

lemma constrainToScreen_clamp:
  "px (position (constrainToScreen cfg obj)) \<noteq> px (position obj)
     \<Longrightarrow> vx (velocity (constrainToScreen cfg obj)) = 0"
  "py (position (constrainToScreen cfg obj)) \<noteq> py (position obj)
     \<Longrightarrow> vy (velocity (constrainToScreen cfg obj)) = 0"
  by (auto simp: constrainToScreen_def constrainX_def constrainY_def Let_def split: if_splits)

subsection \<open>A step of length zero\<close>

lemma updateGameObject_zero:
  "position (updateGameObject obj 0) = position obj"
  "rotation (updateGameObject obj 0) = (if atRest obj then rotation obj else heading obj)"
  by (simp_all add: updateGameObject_def Let_def atRest_def heading_def)

lemma updateEnemies_zero:
  "list_all2 zeroStep es (fst (updateEnemies cfg 0 es gs w))"
proof (induction es arbitrary: gs w)
  case Nil
  then show ?case by simp
next
  case (Cons e es)
  show ?case
  proof (cases "isActive e")
    case True
    let ?r = "updateEnemyBehavior (updateGameObject e 0) gs 0 w"
    let ?e3 = "if \<not> isOnScreen cfg (fst ?r) then (fst ?r)\<lparr>isActive := False\<rparr> else fst ?r"
    have "zeroStep e ?e3"
      using True
      by (simp add: zeroStep_def updateEnemyBehavior_frame updateGameObject_zero)
    with True Cons.IH [of "fst (snd ?r)" "snd (snd ?r)"] show ?thesis
      by (simp add: Let_def split_def)
  next
    case False
    then have "zeroStep e e" by (simp add: zeroStep_def)
    with False Cons.IH [of gs w] show ?thesis by (simp add: Let_def split_def)
  qed
qed

lemma updateBullet_zero: "zeroStep b (updateBullet cfg 0 b)"
  by (simp add: updateBullet_def zeroStep_def Let_def updateGameObject_zero)

lemma physics_enemies:
  "enemies (fst (PhysicsEngine_update cfg gs dt w))
     = fst (updateEnemies cfg (dt / 1000) (enemies gs)
              (gs\<lparr>players := map (updatePlayer cfg (dt / 1000)) (players gs)\<rparr>) w)"
  by (simp add: PhysicsEngine_update_def Let_def split_def)

lemma physics_bullets:
  "\<exists>extra. bullets (fst (PhysicsEngine_update cfg gs dt w))
     = map (updateBullet cfg (dt / 1000)) (bullets gs @ extra)"
proof -
  let ?gs1 = "gs\<lparr>players := map (updatePlayer cfg (dt / 1000)) (players gs)\<rparr>"
  obtain extra where
    "bullets (fst (snd (updateEnemies cfg (dt / 1000) (enemies ?gs1) ?gs1 w)))
       = bullets ?gs1 @ extra"
    using updateEnemies_bullets by blast
  then show ?thesis
    by (auto simp add: PhysicsEngine_update_def Let_def split_def)
qed

lemma updatePlayer_zero: "zeroStepPlayer cfg p (updatePlayer cfg 0 p)"
proof (cases "isActive p")
  case True
  have r: "rotation (constrainToScreen cfg obj) = rotation obj" for obj :: Player
    by (simp add: constrainToScreen_def constrainX_def constrainY_def Let_def)
  have s: "inPlayfield cfg obj \<Longrightarrow> constrainToScreen cfg obj = obj" for obj :: Player
    by (simp add: inPlayfield_def constrainToScreen_def constrainX_def constrainY_def Let_def)
  have c: "position (constrainToScreen cfg (updateGameObject p 0))
             = position (constrainToScreen cfg p)"
    by (simp add: constrainToScreen_def constrainX_def constrainY_def Let_def
        updateGameObject_zero updateGameObject_frame)
  from True show ?thesis
    using s [of p] c
    by (auto simp add: zeroStepPlayer_def updatePlayer_def r updateGameObject_zero)
next
  case False
  then show ?thesis by (simp add: zeroStepPlayer_def updatePlayer_def)
qed

text \<open>
  The loops read the clock of the one world: they leave the stream of readings as it is
  and only move on in it.
\<close>

lemma Date_now_reads:
  "fst (Date_now w) = clock w (clockReads w)"
  "clock (snd (Date_now w)) = clock w"
  "clockReads (snd (Date_now w)) = Suc (clockReads w)"
  by (simp_all add: Date_now_def)

lemma freshId_reads:
  "clock (snd (freshId pre w)) = clock w"
  "clockReads (snd (freshId pre w)) = Suc (clockReads w)"
  by (simp_all add: freshId_def Date_now_def Math_random_def split_def Let_def)

lemma applyAttackPattern_reads:
  "clock (snd (applyAttackPattern enemy gs w)) = clock w"
  "clockReads w \<le> clockReads (snd (applyAttackPattern enemy gs w))"
  by (simp_all add: applyAttackPattern_def Let_def split_def Date_now_reads
      split: AttackPattern.split option.split)

lemma handleEnemyShooting_reads:
  "clock (snd (snd (handleEnemyShooting enemy gs dt w))) = clock w"
  "clockReads w \<le> clockReads (snd (snd (handleEnemyShooting enemy gs dt w)))"
  by (simp_all add: handleEnemyShooting_def createEnemyBullet_def Let_def split_def
      Date_now_reads freshId_reads split: option.split)

lemma updateEnemyBehavior_reads:
  "clock (snd (snd (updateEnemyBehavior enemy gs dt w))) = clock w"
  "clockReads w \<le> clockReads (snd (snd (updateEnemyBehavior enemy gs dt w)))"
proof -
  let ?a = "applyAttackPattern enemy gs w"
  have e: "updateEnemyBehavior enemy gs dt w = handleEnemyShooting (fst ?a) gs dt (snd ?a)"
    by (simp add: updateEnemyBehavior_def split_def Let_def)
  show "clock (snd (snd (updateEnemyBehavior enemy gs dt w))) = clock w"
    unfolding e by (simp add: handleEnemyShooting_reads applyAttackPattern_reads)
  show "clockReads w \<le> clockReads (snd (snd (updateEnemyBehavior enemy gs dt w)))"
    unfolding e
    using handleEnemyShooting_reads(2) [where w = "snd ?a" and enemy = "fst ?a" and gs = gs
        and dt = dt]
      applyAttackPattern_reads(2) [where w = w and enemy = enemy and gs = gs]
    by linarith
qed

lemma updateEnemies_reads:
  "clock (snd (snd (updateEnemies cfg ds es gs w))) = clock w
   \<and> clockReads w \<le> clockReads (snd (snd (updateEnemies cfg ds es gs w)))"
proof (induction es arbitrary: gs w)
  case Nil
  then show ?case by simp
next
  case (Cons e es)
  show ?case
  proof (cases "isActive e")
    case True
    let ?r = "updateEnemyBehavior (updateGameObject e ds) gs ds w"
    have eq: "snd (snd (updateEnemies cfg ds (e # es) gs w))
                = snd (snd (updateEnemies cfg ds es (fst (snd ?r)) (snd (snd ?r))))"
      using True by (simp add: Let_def split_def)
    from Cons.IH [of "fst (snd ?r)" "snd (snd ?r)"]
      updateEnemyBehavior_reads [where enemy = "updateGameObject e ds" and gs = gs
        and dt = ds and w = w]
    show ?thesis unfolding eq by simp
  next
    case False
    then have eq: "snd (snd (updateEnemies cfg ds (e # es) gs w))
                     = snd (snd (updateEnemies cfg ds es gs w))"
      by (simp add: Let_def split_def)
    from Cons.IH [of gs w] show ?thesis unfolding eq .
  qed
qed

lemma updateEnemies_none_active:
  "\<forall>e \<in> set es. \<not> isActive e \<Longrightarrow> updateEnemies cfg ds es gs w = (es, gs, w)"
  by (induction es) simp_all

lemma updatePowerUps_zero:
  "zeroStepPowerUps (clock w) (clockReads w) us (fst (updatePowerUps cfg 0 us w))"
proof (induction us arbitrary: w)
  case Nil
  then show ?case by simp
next
  case (Cons u us)
  show ?case
  proof (cases "isActive u")
    case True
    let ?t = "fst (Date_now w)"
    let ?u1 = "updateGameObject u 0"
    let ?u2 = "?u1\<lparr>position := (position ?u1)\<lparr>py := py (position ?u1) + sin (?t * 0.005) * 0.5\<rparr>\<rparr>"
    let ?u3 = "if \<not> isOnScreen cfg ?u2 then ?u2\<lparr>isActive := False\<rparr> else ?u2"
    have h: "zeroStepPowerUp (clock w (clockReads w)) u ?u3"
      using True by (simp add: zeroStepPowerUp_def updateGameObject_zero Date_now_reads)
    have eq: "fst (updatePowerUps cfg 0 (u # us) w)
                = ?u3 # fst (updatePowerUps cfg 0 us (snd (Date_now w)))"
      using True by (simp add: Let_def split_def)
    from Cons.IH [of "snd (Date_now w)"]
    have t: "zeroStepPowerUps (clock w) (Suc (clockReads w)) us
               (fst (updatePowerUps cfg 0 us (snd (Date_now w))))"
      by (simp add: Date_now_reads)
    show ?thesis
      unfolding eq zeroStepPowerUps.simps using h t True by simp
  next
    case False
    then have h: "zeroStepPowerUp (clock w (clockReads w)) u u"
      by (simp add: zeroStepPowerUp_def)
    have eq: "fst (updatePowerUps cfg 0 (u # us) w) = u # fst (updatePowerUps cfg 0 us w)"
      using False by (simp add: Let_def split_def)
    show ?thesis
      unfolding eq zeroStepPowerUps.simps using h Cons.IH [of w] False by simp
  qed
qed

lemma physics_powerUps:
  "gsPowerUps (fst (PhysicsEngine_update cfg gs dt w))
     = fst (updatePowerUps cfg (dt / 1000) (gsPowerUps gs) (enemyLoopWorld cfg gs dt w))"
proof -
  have "gsPowerUps (fst (snd (updateEnemies cfg ds es g w))) = gsPowerUps g" for ds es g
    by (induction es arbitrary: g w)
       (simp_all add: Let_def split_def updateEnemyBehavior_def handleEnemyShooting_def
         split: option.split)
  then show ?thesis
    by (simp add: PhysicsEngine_update_def enemyLoopWorld_def Let_def split_def)
qed

text \<open>
  Claim C2, as the code has it: a physics update with \<open>deltaTime = 0\<close> leaves the
  position of every enemy and of every bullet unchanged. It still clamps every active
  player to the screen, so the position of a player is unchanged when the player is
  inactive or within the playfield. It leaves the \<open>x\<close> of every power-up unchanged and
  adds \<open>0.5 \<sdot> sin (0.005 \<sdot> now)\<close> to the \<open>y\<close> of every active power-up, where
  \<open>now\<close> is the reading of the world's clock made for that power-up: the readings
  follow those of the enemy loop, one for each active power-up in order. The rotation of
  an object is unchanged when the object is inactive or has zero velocity; an active
  object with a non-zero velocity gets the rotation \<open>atan2 vy vx + \<pi>/2\<close>. The bullets
  that enemies fire during the call are appended after the existing ones.
\<close>

theorem C2_zero_delta_update:
  "list_all2 (zeroStepPlayer cfg) (players gs) (players (fst (PhysicsEngine_update cfg gs 0 w)))
   \<and> list_all2 zeroStep (enemies gs) (enemies (fst (PhysicsEngine_update cfg gs 0 w)))
   \<and> list_all2 zeroStep (bullets gs)
        (take (length (bullets gs)) (bullets (fst (PhysicsEngine_update cfg gs 0 w))))
   \<and> zeroStepPowerUps (clock w) (clockReads (enemyLoopWorld cfg gs 0 w)) (gsPowerUps gs)
        (gsPowerUps (fst (PhysicsEngine_update cfg gs 0 w)))
   \<and> clockReads w \<le> clockReads (enemyLoopWorld cfg gs 0 w)"
proof (intro conjI)
  show "list_all2 (zeroStepPlayer cfg) (players gs)
          (players (fst (PhysicsEngine_update cfg gs 0 w)))"
    unfolding physics_players list_all2_map2
    by (rule list_all2_refl) (simp add: updatePlayer_zero)
  show "list_all2 zeroStep (enemies gs) (enemies (fst (PhysicsEngine_update cfg gs 0 w)))"
    unfolding physics_enemies using updateEnemies_zero by simp
  show "list_all2 zeroStep (bullets gs)
          (take (length (bullets gs)) (bullets (fst (PhysicsEngine_update cfg gs 0 w))))"
  proof -
    obtain extra where "bullets (fst (PhysicsEngine_update cfg gs 0 w))
        = map (updateBullet cfg (0 / 1000)) (bullets gs @ extra)"
      using physics_bullets by blast
    then have "take (length (bullets gs)) (bullets (fst (PhysicsEngine_update cfg gs 0 w)))
        = map (updateBullet cfg 0) (bullets gs)"
      by simp
    then show ?thesis
      unfolding list_all2_map2 by (simp add: list_all2_map2 list_all2_refl updateBullet_zero)
  qed
  have c: "clock (enemyLoopWorld cfg gs 0 w) = clock w"
    and n: "clockReads w \<le> clockReads (enemyLoopWorld cfg gs 0 w)"
    unfolding enemyLoopWorld_def using updateEnemies_reads by blast+
  show "clockReads w \<le> clockReads (enemyLoopWorld cfg gs 0 w)" by (rule n)
  show "zeroStepPowerUps (clock w) (clockReads (enemyLoopWorld cfg gs 0 w)) (gsPowerUps gs)
          (gsPowerUps (fst (PhysicsEngine_update cfg gs 0 w)))"
    unfolding physics_powerUps
    using updatePowerUps_zero [where w = "enemyLoopWorld cfg gs 0 w" and us = "gsPowerUps gs"
        and cfg = cfg]
    by (simp add: c)
qed

lemma sampleEnemy_motion:
  "velocity (sampleEnemy pos) = \<lparr>vx = 0, vy = 85\<rparr>" "rotation (sampleEnemy pos) = 0"
  "attackPattern (sampleEnemy pos) = STRAIGHT" "lastShotTime (sampleEnemy pos) = None"
  "enemyType (sampleEnemy pos) = BASIC"
  by (simp_all add: sampleEnemy_def createEnemy_def getRandomSpawnPosition_def getEnemyStats_def
      Math_floor_def getRandomAttackPattern_def sampleEngine_def GameEngine_new_def
      EnemySpawner_new_def PowerUpSpawner_new_def world_defs Let_def)

lemma samplePowerUp_fields:
  "position samplePowerUp = \<lparr>px = 30, py = - 30\<rparr>" "isActive samplePowerUp"
  "velocity samplePowerUp = \<lparr>vx = 0, vy = 50\<rparr>" "rotation samplePowerUp = 0"
  by (simp_all add: samplePowerUp_def createPowerUp_def getRandomSpawnPosition_def
      sampleEngine_def GameEngine_new_def EnemySpawner_new_def PowerUpSpawner_new_def
      GAME_CONFIG_def world_defs Let_def)

lemma zeroStepPowerUps_single:
  assumes "zeroStepPowerUps readings n [u] us'"
  shows "\<exists>u'. us' = [u'] \<and> zeroStepPowerUp (readings n) u u'"
proof (cases us')
  case Nil
  with assms show ?thesis by simp
next
  case (Cons u' rest)
  with assms show ?thesis by (cases rest) simp_all
qed

text \<open>
  A player of the game inside the playfield, a wave-1 basic enemy and a health power-up,
  at clock reading 100: a zero-length step leaves the player and the enemy where they
  are and moves the power-up down by \<open>sin (1/2) / 2\<close>.
\<close>

theorem C2_zero_delta_witness:
  "inPlayfield (GAME_CONFIG 400 800) (localPlayer \<lparr>px = 200, py = 700\<rparr>)
   \<and> map position (players (fst (PhysicsEngine_update (GAME_CONFIG 400 800)
        ((sampleState [localPlayer \<lparr>px = 200, py = 700\<rparr>] [sampleEnemy \<lparr>px = 200, py = 100\<rparr>])
           \<lparr>gsPowerUps := [samplePowerUp]\<rparr>)
        0 (steadyWorld 100 0)))) = [\<lparr>px = 200, py = 700\<rparr>]
   \<and> map position (enemies (fst (PhysicsEngine_update (GAME_CONFIG 400 800)
        ((sampleState [localPlayer \<lparr>px = 200, py = 700\<rparr>] [sampleEnemy \<lparr>px = 200, py = 100\<rparr>])
           \<lparr>gsPowerUps := [samplePowerUp]\<rparr>)
        0 (steadyWorld 100 0)))) = [\<lparr>px = 200, py = 100\<rparr>]
   \<and> map position (gsPowerUps (fst (PhysicsEngine_update (GAME_CONFIG 400 800)
        ((sampleState [localPlayer \<lparr>px = 200, py = 700\<rparr>] [sampleEnemy \<lparr>px = 200, py = 100\<rparr>])
           \<lparr>gsPowerUps := [samplePowerUp]\<rparr>)
        0 (steadyWorld 100 0)))) = [\<lparr>px = 30, py = - 30 + sin (1 / 2) / 2\<rparr>]"
proof -
  define cfg where "cfg = GAME_CONFIG 400 800"
  define p where "p = localPlayer \<lparr>px = 200, py = 700\<rparr>"
  define e where "e = sampleEnemy \<lparr>px = 200, py = 100\<rparr>"
  define gs where "gs = (sampleState [p] [e])\<lparr>gsPowerUps := [samplePowerUp]\<rparr>"
  define w where "w = steadyWorld 100 0"
  define r where "r = fst (PhysicsEngine_update cfg gs 0 w)"
  have i: "inPlayfield cfg p"
    by (simp add: inPlayfield_def GAME_CONFIG_def localPlayer_def cfg_def p_def)
  have g: "players gs = [p]" "enemies gs = [e]" "gsPowerUps gs = [samplePowerUp]"
    by (simp_all add: sampleState_def gs_def)
  have k: "clock w n = 100" for n by (simp add: w_def steadyWorld_def)
  from C2_zero_delta_update [of cfg gs w]
  have a: "list_all2 (zeroStepPlayer cfg) [p] (players r)"
    and b: "list_all2 zeroStep [e] (enemies r)"
    and c: "zeroStepPowerUps (clock w) (clockReads (enemyLoopWorld cfg gs 0 w))
              [samplePowerUp] (gsPowerUps r)"
    unfolding g r_def by blast+
  from a i have "map position (players r) = [position p]"
    by (auto simp: list_all2_Cons1 zeroStepPlayer_def)
  moreover from b have "map position (enemies r) = [position e]"
    by (auto simp: list_all2_Cons1 zeroStep_def)
  moreover from zeroStepPowerUps_single [OF c] obtain u' where
    u: "gsPowerUps r = [u']" "zeroStepPowerUp 100 samplePowerUp u'"
    unfolding k by blast
  from u(2) have "px (position u') = 30" "py (position u') = - 30 + sin (1 / 2) / 2"
    by (simp_all add: zeroStepPowerUp_def samplePowerUp_fields)
  then have "position u' = \<lparr>px = 30, py = - 30 + sin (1 / 2) / 2\<rparr>"
    by (cases "position u'") simp
  with u(1) have "map position (gsPowerUps r) = [\<lparr>px = 30, py = - 30 + sin (1 / 2) / 2\<rparr>]"
    by simp
  ultimately have "inPlayfield cfg p
      \<and> map position (players r) = [\<lparr>px = 200, py = 700\<rparr>]
      \<and> map position (enemies r) = [\<lparr>px = 200, py = 100\<rparr>]
      \<and> map position (gsPowerUps r) = [\<lparr>px = 30, py = - 30 + sin (1 / 2) / 2\<rparr>]"
    using i by (simp add: p_def e_def sampleEnemy_fields localPlayer_def)
  then show ?thesis
    unfolding r_def gs_def w_def e_def p_def cfg_def .
qed

text \<open>
  The claim as written lets every position and every rotation stay. Three objects that
  the engine itself makes show otherwise, each in a physics update with
  \<open>deltaTime = 0\<close>. A wave-1 basic enemy is created with rotation 0 and velocity
  \<open>(0, 85)\<close>; its rotation becomes \<open>\<pi>\<close>. The local player, moved with
  \<open>updatePlayerPosition\<close> to \<open>x = 10\<close>, is clamped to \<open>x = 20\<close>. A health
  power-up at \<open>y = -30\<close> is moved, at clock reading 100, to
  \<open>y = -30 + sin (1/2) / 2\<close>, which is further down.
\<close>

theorem C2_zero_delta_counterexample:
  "map rotation (enemies (sampleState [] [sampleEnemy \<lparr>px = 200, py = 100\<rparr>])) = [0]
   \<and> map rotation (enemies (fst (PhysicsEngine_update (GAME_CONFIG 400 800)
        (sampleState [] [sampleEnemy \<lparr>px = 200, py = 100\<rparr>]) 0 (steadyWorld 0 0)))) = [pi]
   \<and> pi \<noteq> (0::real)
   \<and> map position (players (gameState (updatePlayerPosition
        (addPlayer (sampleEngine [] PLAYING) (localPlayer \<lparr>px = 200, py = 700\<rparr>))
        (Named ''local_player'') \<lparr>px = 10, py = 700\<rparr>))) = [\<lparr>px = 10, py = 700\<rparr>]
   \<and> map position (players (fst (PhysicsEngine_update (GAME_CONFIG 400 800)
        (gameState (updatePlayerPosition
           (addPlayer (sampleEngine [] PLAYING) (localPlayer \<lparr>px = 200, py = 700\<rparr>))
           (Named ''local_player'') \<lparr>px = 10, py = 700\<rparr>))
        0 (steadyWorld 0 0)))) = [\<lparr>px = 20, py = 700\<rparr>]
   \<and> map position (gsPowerUps ((sampleState [] [])\<lparr>gsPowerUps := [samplePowerUp]\<rparr>))
        = [\<lparr>px = 30, py = - 30\<rparr>]
   \<and> map position (gsPowerUps (fst (PhysicsEngine_update (GAME_CONFIG 400 800)
        ((sampleState [] [])\<lparr>gsPowerUps := [samplePowerUp]\<rparr>) 0 (steadyWorld 100 0))))
        = [\<lparr>px = 30, py = - 30 + sin (1 / 2) / 2\<rparr>]
   \<and> 0 < sin (1 / 2 :: real)"
proof -
  let ?e = "sampleEnemy \<lparr>px = 200, py = 100\<rparr>"
  have h: "heading ?e = pi"
    by (simp add: heading_def atan2_def sampleEnemy_motion)
  have r: "rotation (updateGameObject ?e 0) = pi"
    by (simp add: updateGameObject_zero atRest_def sampleEnemy_motion h)
  have "map rotation (enemies (fst (PhysicsEngine_update (GAME_CONFIG 400 800)
        (sampleState [] [?e]) 0 (steadyWorld 0 0))))
      = [rotation (updateGameObject ?e 0)]"
    by (simp add: physics_enemies sampleState_def sampleEnemy_fields Let_def split_def
        updateEnemyBehavior_frame)
  then have one: "map rotation (enemies (sampleState [] [?e])) = [0]
      \<and> map rotation (enemies (fst (PhysicsEngine_update (GAME_CONFIG 400 800)
            (sampleState [] [?e]) 0 (steadyWorld 0 0)))) = [pi] \<and> pi \<noteq> (0::real)"
    by (simp add: r sampleState_def sampleEnemy_motion)
  define eng where "eng = updatePlayerPosition
        (addPlayer (sampleEngine [] PLAYING) (localPlayer \<lparr>px = 200, py = 700\<rparr>))
        (Named ''local_player'') \<lparr>px = 10, py = 700\<rparr>"
  have ps: "players (gameState eng) = [(localPlayer \<lparr>px = 200, py = 700\<rparr>)
                                         \<lparr>position := \<lparr>px = 10, py = 700\<rparr>\<rparr>]"
    unfolding eng_def
    by (simp add: updatePlayerPosition_def addPlayer_def localPlayer_def)
  have two: "map position (players (gameState eng)) = [\<lparr>px = 10, py = 700\<rparr>]
      \<and> map position (players (fst (PhysicsEngine_update (GAME_CONFIG 400 800)
            (gameState eng) 0 (steadyWorld 0 0)))) = [\<lparr>px = 20, py = 700\<rparr>]"
    unfolding physics_players ps
    by (simp add: updatePlayer_def updateGameObject_def constrainToScreen_def constrainX_def
        constrainY_def localPlayer_def GAME_CONFIG_def Let_def)
  define gs where "gs = (sampleState [] [])\<lparr>gsPowerUps := [samplePowerUp]\<rparr>"
  have g: "gsPowerUps gs = [samplePowerUp]" "enemies gs = []"
    by (simp_all add: gs_def sampleState_def)
  have lw: "enemyLoopWorld (GAME_CONFIG 400 800) gs 0 (steadyWorld 100 0) = steadyWorld 100 0"
    by (simp add: enemyLoopWorld_def g)
  have "gsPowerUps (fst (PhysicsEngine_update (GAME_CONFIG 400 800) gs 0 (steadyWorld 100 0)))
          = fst (updatePowerUps (GAME_CONFIG 400 800) 0 [samplePowerUp] (steadyWorld 100 0))"
    unfolding physics_powerUps lw g by simp
  also have "map position \<dots> = [\<lparr>px = 30, py = - 30 + sin (1 / 2) / 2\<rparr>]"
    by (simp add: samplePowerUp_fields updateGameObject_zero updateGameObject_def isOnScreen_def
        GAME_CONFIG_def world_defs Let_def split_def)
  finally have three: "map position (gsPowerUps gs) = [\<lparr>px = 30, py = - 30\<rparr>]
      \<and> map position (gsPowerUps (fst (PhysicsEngine_update (GAME_CONFIG 400 800) gs 0
            (steadyWorld 100 0)))) = [\<lparr>px = 30, py = - 30 + sin (1 / 2) / 2\<rparr>]"
    by (simp add: g samplePowerUp_fields)
  have pos: "0 < sin (1 / 2 :: real)"
  proof (rule sin_gt_zero)
    show "0 < (1 / 2 :: real)" by simp
    show "(1 / 2 :: real) < pi" using pi_ge_two by linarith
  qed
  from one two three pos show ?thesis
    unfolding eng_def gs_def by blast
qed

section \<open>Enemy spawner\<close>

lemma no_active_enemies:
  "(length (filter isActive es) = 0) = (\<forall>e \<in> set es. \<not> isActive e)"
  by (simp add: filter_empty_conv)

lemma shouldStartNewWave_due: "shouldStartNewWave sp gs now = newWaveDue sp gs now"
  by (simp add: shouldStartNewWave_def newWaveDue_def Let_def filter_empty_conv)

lemma startNewWave_fields:
  "waveNumber (fst (startNewWave sp w)) = waveNumber sp + 1"
  "enemiesInCurrentWave (fst (startNewWave sp w)) = 0"
  "bossSpawned (fst (startNewWave sp w)) = False"
  "spawnInterval (fst (startNewWave sp w)) = max 500 (spawnInterval sp * 0.9)"
  "maxEnemiesPerWave (fst (startNewWave sp w)) = min 15 (maxEnemiesPerWave sp + 1)"
  "timeBetweenWaves (fst (startNewWave sp w)) = max 2000 (timeBetweenWaves sp * 0.95)"
  "esConfig (fst (startNewWave sp w)) = esConfig sp"
  "lastSpawnTime (fst (startNewWave sp w)) = lastSpawnTime sp"
  by (simp_all add: startNewWave_def scaleDifficulty_def split_def Let_def)

lemma bossStep_fields:
  "waveNumber (fst (snd (bossStep sp gs w))) = waveNumber sp"
  "enemiesInCurrentWave (fst (snd (bossStep sp gs w))) = enemiesInCurrentWave sp"
  "spawnInterval (fst (snd (bossStep sp gs w))) = spawnInterval sp"
  "maxEnemiesPerWave (fst (snd (bossStep sp gs w))) = maxEnemiesPerWave sp"
  "timeBetweenWaves (fst (snd (bossStep sp gs w))) = timeBetweenWaves sp"
  "esConfig (fst (snd (bossStep sp gs w))) = esConfig sp"
  "lastSpawnTime (fst (snd (bossStep sp gs w))) = lastSpawnTime sp"
  "bossSpawned (fst (snd (bossStep sp gs w))) = (bossSpawned sp \<or> shouldSpawnBoss sp gs)"
  "fst (bossStep sp gs w) = (if shouldSpawnBoss sp gs then [fst (createBoss sp w)] else [])"
  by (simp_all add: bossStep_def split_def Let_def)

lemma spawnStep_fields:
  "waveNumber (fst (snd (spawnStep sp now w))) = waveNumber sp"
  "spawnInterval (fst (snd (spawnStep sp now w))) = spawnInterval sp"
  "maxEnemiesPerWave (fst (snd (spawnStep sp now w))) = maxEnemiesPerWave sp"
  "timeBetweenWaves (fst (snd (spawnStep sp now w))) = timeBetweenWaves sp"
  "esConfig (fst (snd (spawnStep sp now w))) = esConfig sp"
  "bossSpawned (fst (snd (spawnStep sp now w))) = bossSpawned sp"
  "enemiesInCurrentWave (fst (snd (spawnStep sp now w)))
     = enemiesInCurrentWave sp + int (length (fst (spawnStep sp now w)))"
  "fst (spawnStep sp now w)
     = (if shouldSpawnEnemy sp now \<and> enemiesInCurrentWave sp < maxEnemiesPerWave sp
        then [fst (createRandomEnemy sp w)] else [])"
  by (simp_all add: spawnStep_def split_def Let_def)

text \<open>
  The spawner after an update, in terms of the three steps. \<open>spawnerAtCheck\<close> is the
  spawner after the new-wave step, as the boss check sees it.
\<close>

lemma update_steps:
  fixes sp gs dt w
  defines "now \<equiv> fst (Date_now w)"
  defines "s1 \<equiv> waveStep sp gs now (snd (Date_now w))"
  defines "s2 \<equiv> bossStep (fst s1) gs (snd s1)"
  defines "s3 \<equiv> spawnStep (fst (snd s2)) now (snd (snd s2))"
  shows "EnemySpawner_update sp gs dt w = (fst s2 @ fst s3, fst (snd s3), snd (snd s3))"
  by (simp add: EnemySpawner_update_def split_def Let_def now_def s1_def s2_def s3_def)

lemma waveStep_fst:
  "fst (waveStep sp gs now w) = (if newWaveDue sp gs now then fst (startNewWave sp w) else sp)"
  by (simp add: waveStep_def shouldStartNewWave_due)

text \<open>
  Claim C3. An update advances the wave number only when no enemy of the state is
  active, the inter-wave delay has elapsed since the last wave start, and the quota of the
  current wave has been spawned. When it does, \<open>startNewWave\<close> runs on the spawner:
  the wave number grows by 1, \<open>enemiesInCurrentWave\<close> is reset to 0, the boss flag
  is reset, the spawn interval is multiplied by 0.9 and kept at 500 or above, the quota
  grows by 1 and is kept at 15 or below, and the inter-wave delay is multiplied by 0.95
  and kept at 2000 or above. The rest of the update keeps the wave number, the interval,
  the quota and the delay, and counts the regular enemy it may spawn from 0.
\<close>

theorem C3_new_wave_trigger:
  fixes sp gs dt w
  defines "now \<equiv> fst (Date_now w)"
  defines "started \<equiv> fst (startNewWave sp (snd (Date_now w)))"
  defines "result \<equiv> EnemySpawner_update sp gs dt w"
  defines "sp' \<equiv> fst (snd result)"
  shows "(waveNumber sp' \<noteq> waveNumber sp \<longrightarrow> newWaveDue sp gs now)
       \<and> (newWaveDue sp gs now \<longrightarrow>
            fst (waveStep sp gs now (snd (Date_now w))) = started
            \<and> waveNumber started = waveNumber sp + 1
            \<and> enemiesInCurrentWave started = 0
            \<and> \<not> bossSpawned started
            \<and> spawnInterval started = max 500 (spawnInterval sp * 0.9)
            \<and> maxEnemiesPerWave started = min 15 (maxEnemiesPerWave sp + 1)
            \<and> timeBetweenWaves started = max 2000 (timeBetweenWaves sp * 0.95)
            \<and> waveNumber sp' = waveNumber sp + 1
            \<and> spawnInterval sp' = max 500 (spawnInterval sp * 0.9)
            \<and> maxEnemiesPerWave sp' = min 15 (maxEnemiesPerWave sp + 1)
            \<and> timeBetweenWaves sp' = max 2000 (timeBetweenWaves sp * 0.95)
            \<and> enemiesInCurrentWave sp'
                = (if shouldSpawnEnemy started now \<and> 0 < maxEnemiesPerWave started
                   then 1 else 0))"
proof -
  have r: "sp' = fst (snd (spawnStep (fst (snd (bossStep
                (fst (waveStep sp gs now (snd (Date_now w)))) gs
                (snd (waveStep sp gs now (snd (Date_now w))))))) now
                (snd (snd (bossStep
                (fst (waveStep sp gs now (snd (Date_now w)))) gs
                (snd (waveStep sp gs now (snd (Date_now w)))))))))"
    unfolding sp'_def result_def now_def update_steps by simp
  have wn: "waveNumber sp' = waveNumber (fst (waveStep sp gs now (snd (Date_now w))))"
    unfolding r by (simp add: spawnStep_fields bossStep_fields)
  show ?thesis
  proof (intro conjI impI)
    assume "waveNumber sp' \<noteq> waveNumber sp"
    then show "newWaveDue sp gs now"
      unfolding wn waveStep_fst by (simp split: if_splits)
  next
    assume d: "newWaveDue sp gs now"
    then show s: "fst (waveStep sp gs now (snd (Date_now w))) = started"
      by (simp add: waveStep_fst started_def)
    show "waveNumber started = waveNumber sp + 1" "enemiesInCurrentWave started = 0"
      "\<not> bossSpawned started" "spawnInterval started = max 500 (spawnInterval sp * 0.9)"
      "maxEnemiesPerWave started = min 15 (maxEnemiesPerWave sp + 1)"
      "timeBetweenWaves started = max 2000 (timeBetweenWaves sp * 0.95)"
      by (simp_all add: started_def startNewWave_fields)
    show "waveNumber sp' = waveNumber sp + 1"
      "spawnInterval sp' = max 500 (spawnInterval sp * 0.9)"
      "maxEnemiesPerWave sp' = min 15 (maxEnemiesPerWave sp + 1)"
      "timeBetweenWaves sp' = max 2000 (timeBetweenWaves sp * 0.95)"
      unfolding r s by (simp_all add: spawnStep_fields bossStep_fields started_def
          startNewWave_fields)
    show "enemiesInCurrentWave sp'
                = (if shouldSpawnEnemy started now \<and> 0 < maxEnemiesPerWave started
                   then 1 else 0)"
      unfolding r s
      by (simp add: spawnStep_fields bossStep_fields started_def startNewWave_fields
          shouldSpawnEnemy_def)
  qed
qed

text \<open>
  A new spawner at clock 0, five enemies into wave 1, with no enemy left and six seconds
  gone: the update starts wave 2 with the scaled difficulty and, the spawn interval having
  passed as well, spawns the first enemy of the new wave in the same call.
\<close>

theorem C3_new_wave_witness:
  "newWaveDue ((enemySpawner (sampleEngine [] PLAYING))\<lparr>enemiesInCurrentWave := 5\<rparr>)
      (sampleState [] []) (fst (Date_now (steadyWorld 6000 0)))
   \<and> waveNumber ((enemySpawner (sampleEngine [] PLAYING))\<lparr>enemiesInCurrentWave := 5\<rparr>) = 1
   \<and> waveNumber (fst (snd (EnemySpawner_update
        ((enemySpawner (sampleEngine [] PLAYING))\<lparr>enemiesInCurrentWave := 5\<rparr>)
        (sampleState [] []) 16 (steadyWorld 6000 0)))) = 2
   \<and> enemiesInCurrentWave (fst (startNewWave
        ((enemySpawner (sampleEngine [] PLAYING))\<lparr>enemiesInCurrentWave := 5\<rparr>)
        (snd (Date_now (steadyWorld 6000 0))))) = 0
   \<and> spawnInterval (fst (snd (EnemySpawner_update
        ((enemySpawner (sampleEngine [] PLAYING))\<lparr>enemiesInCurrentWave := 5\<rparr>)
        (sampleState [] []) 16 (steadyWorld 6000 0)))) = 1800
   \<and> maxEnemiesPerWave (fst (snd (EnemySpawner_update
        ((enemySpawner (sampleEngine [] PLAYING))\<lparr>enemiesInCurrentWave := 5\<rparr>)
        (sampleState [] []) 16 (steadyWorld 6000 0)))) = 6
   \<and> timeBetweenWaves (fst (snd (EnemySpawner_update
        ((enemySpawner (sampleEngine [] PLAYING))\<lparr>enemiesInCurrentWave := 5\<rparr>)
        (sampleState [] []) 16 (steadyWorld 6000 0)))) = 4750
   \<and> enemiesInCurrentWave (fst (snd (EnemySpawner_update
        ((enemySpawner (sampleEngine [] PLAYING))\<lparr>enemiesInCurrentWave := 5\<rparr>)
        (sampleState [] []) 16 (steadyWorld 6000 0)))) = 1"
proof -
  let ?sp = "(enemySpawner (sampleEngine [] PLAYING))\<lparr>enemiesInCurrentWave := 5\<rparr>"
  let ?gs = "sampleState [] []"
  let ?w = "steadyWorld 6000 0"
  have f: "waveNumber ?sp = 1" "enemiesInCurrentWave ?sp = 5" "maxEnemiesPerWave ?sp = 5"
    "spawnInterval ?sp = 2000" "timeBetweenWaves ?sp = 5000" "lastWaveTime ?sp = 0"
    "lastSpawnTime ?sp = 0"
    by (simp_all add: sampleEngine_def GameEngine_new_def EnemySpawner_new_def world_defs
        Let_def split_def)
  have n: "fst (Date_now ?w) = 6000" by (simp add: world_defs)
  have d: "newWaveDue ?sp ?gs (fst (Date_now ?w))"
    unfolding n by (simp add: newWaveDue_def f sampleState_def)
  have s: "shouldSpawnEnemy (fst (startNewWave ?sp (snd (Date_now ?w)))) (fst (Date_now ?w))
           \<and> 0 < maxEnemiesPerWave (fst (startNewWave ?sp (snd (Date_now ?w))))"
    unfolding n by (simp add: shouldSpawnEnemy_def startNewWave_fields f)
  from C3_new_wave_trigger [where sp = ?sp and gs = ?gs and w = ?w and dt = 16] d s f
  show ?thesis
    by (simp add: startNewWave_fields)
qed

subsection \<open>Bosses\<close>

lemma Math_random_range: "0 \<le> fst (Math_random w) \<and> fst (Math_random w) < 1"
  by (simp add: Math_random_def frac_lt_1)

lemma randomIndex_less:
  assumes "0 \<le> r" "r < 1" "0 < n"
  shows "randomIndex r n < n"
proof -
  have "r * real n < real n" using assms by simp
  then have "\<lfloor>r * real n\<rfloor> < int n" by (simp add: floor_less_iff)
  moreover have "0 \<le> \<lfloor>r * real n\<rfloor>" using assms by simp
  ultimately show ?thesis by (simp add: randomIndex_def nat_less_iff)
qed

lemma createEnemy_type: "enemyType (fst (createEnemy sp t w)) = t"
  by (simp add: createEnemy_def split_def Let_def)

lemma available_types_no_boss: "BOSS \<notin> set (getAvailableEnemyTypes sp)"
  by (simp add: getAvailableEnemyTypes_def)

lemma createRandomEnemy_not_boss: "enemyType (fst (createRandomEnemy sp w)) \<noteq> BOSS"
proof -
  let ?ts = "getAvailableEnemyTypes sp"
  let ?i = "randomIndex (fst (Math_random w)) (length ?ts)"
  have "0 < length ?ts" by (simp add: getAvailableEnemyTypes_def)
  then have "?i < length ?ts"
    using Math_random_range [of w] randomIndex_less by blast
  then have "?ts ! ?i \<in> set ?ts" by (rule nth_mem)
  then have "?ts ! ?i \<noteq> BOSS" using available_types_no_boss [of sp] by metis
  then show ?thesis
    by (simp add: createRandomEnemy_def split_def Let_def createEnemy_type)
qed

lemma createBoss_fields:
  "enemyType (fst (createBoss sp w)) = BOSS"
  "attackPattern (fst (createBoss sp w)) = CIRCULAR"
  "position (fst (createBoss sp w)) = \<lparr>px = screenWidth (esConfig sp) / 2, py = - 50\<rparr>"
  by (simp_all add: createBoss_def split_def Let_def)

text \<open>The bosses among the enemies that an update returns, and the spawner it leaves.\<close>

lemma update_bosses:
  fixes sp gs dt w
  defines "s1 \<equiv> waveStep sp gs (fst (Date_now w)) (snd (Date_now w))"
  shows "filter (\<lambda>e. enemyType e = BOSS) (fst (EnemySpawner_update sp gs dt w))
           = (if shouldSpawnBoss (fst s1) gs then [fst (createBoss (fst s1) (snd s1))] else [])"
  unfolding update_steps s1_def
  by (simp add: bossStep_fields spawnStep_fields createBoss_fields createRandomEnemy_not_boss)

lemma update_spawner:
  fixes sp gs dt w
  defines "s1 \<equiv> fst (waveStep sp gs (fst (Date_now w)) (snd (Date_now w)))"
  defines "sp' \<equiv> fst (snd (EnemySpawner_update sp gs dt w))"
  shows "waveNumber sp' = waveNumber s1"
    and "bossSpawned sp' = (bossSpawned s1 \<or> shouldSpawnBoss s1 gs)"
    and "esConfig sp' = esConfig sp"
    and "waveNumber s1 = (if newWaveDue sp gs (fst (Date_now w)) then waveNumber sp + 1
                           else waveNumber sp)"
    and "bossSpawned s1 = (if newWaveDue sp gs (fst (Date_now w)) then False
                            else bossSpawned sp)"
  unfolding sp'_def update_steps s1_def
  by (simp_all add: bossStep_fields spawnStep_fields waveStep_fst startNewWave_fields)

lemma setDifficulty_frame:
  "bossSpawned (setDifficulty sp name) = bossSpawned sp"
  "esConfig (setDifficulty sp name) = esConfig sp"
  by (simp_all add: setDifficulty_def)

lemma reset_frame: "esConfig (fst (EnemySpawner_reset sp w)) = esConfig sp"
  by (simp add: EnemySpawner_reset_def split_def Let_def)

text \<open>
  The invariant of a run from any spawner, at wave index \<open>k\<close>: every boss event is
  as the specification asks, belongs to wave \<open>k\<close> or a later one, to a later one when
  the boss of wave \<open>k\<close> has been spawned already, and no two events share a wave.
\<close>

lemma spawnerRun_invariant:
  "(\<forall>ev \<in> set (spawnerRun sp w k calls).
       bossEventOk (esConfig sp) ev \<and> k \<le> beWave ev \<and> (bossSpawned sp \<longrightarrow> k < beWave ev))
   \<and> distinct (map beWave (spawnerRun sp w k calls))"
proof (induction calls arbitrary: sp w k)
  case Nil
  then show ?case by simp
next
  case (Cons call calls)
  show ?case
  proof (cases call)
    case (Update gs dt)
    define r where "r = EnemySpawner_update sp gs dt w"
    define sp' where "sp' = fst (snd r)"
    define w' where "w' = snd (snd r)"
    define s1 where "s1 = waveStep sp gs (fst (Date_now w)) (snd (Date_now w))"
    define k' where "k' = (if waveNumber sp' \<noteq> waveNumber sp then Suc k else k)"
    define mk where "mk = (\<lambda>boss. \<lparr>beWave = k', beWaveNumber = waveNumber (fst s1),
                        beSpawned = enemiesInCurrentWave (fst s1),
                        beQuota = maxEnemiesPerWave (fst s1), beBoss = boss\<rparr>)"
    define tail where "tail = spawnerRun sp' w' k' calls"
    have run: "spawnerRun sp w k (call # calls)
                 = map mk (filter (\<lambda>e. enemyType e = BOSS) (fst r)) @ tail"
      unfolding Update tail_def mk_def k'_def s1_def w'_def sp'_def r_def
      by (simp add: split_def Let_def)
    have heads: "map mk (filter (\<lambda>e. enemyType e = BOSS) (fst r))
                   = (if shouldSpawnBoss (fst s1) gs
                      then [mk (fst (createBoss (fst s1) (snd s1)))] else [])"
      unfolding r_def s1_def update_bosses by simp
    have cfg: "esConfig sp' = esConfig sp" "esConfig (fst s1) = esConfig sp"
      unfolding sp'_def r_def s1_def
      by (simp_all add: update_spawner waveStep_fst startNewWave_fields)
    have kk: "k' = (if newWaveDue sp gs (fst (Date_now w)) then Suc k else k)"
      unfolding k'_def sp'_def r_def by (simp add: update_spawner)
    have flag: "bossSpawned sp' = (bossSpawned (fst s1) \<or> shouldSpawnBoss (fst s1) gs)"
      and flag1: "bossSpawned (fst s1)
                    = (if newWaveDue sp gs (fst (Date_now w)) then False else bossSpawned sp)"
      unfolding sp'_def r_def s1_def by (simp_all add: update_spawner)
    from Cons.IH [of sp' w' k'] have
      t1: "\<forall>ev \<in> set tail. bossEventOk (esConfig sp) ev \<and> k' \<le> beWave ev
              \<and> (bossSpawned sp' \<longrightarrow> k' < beWave ev)"
      and t2: "distinct (map beWave tail)"
      unfolding cfg tail_def by blast+
    have b: "k \<le> k'" unfolding kk by simp
    show ?thesis
    proof (cases "shouldSpawnBoss (fst s1) gs")
      case True
      define ev0 where "ev0 = mk (fst (createBoss (fst s1) (snd s1)))"
      have w0: "beWave ev0 = k'" unfolding ev0_def mk_def by simp
      have ok: "bossEventOk (esConfig sp) ev0"
        using True unfolding ev0_def mk_def
        by (simp add: bossEventOk_def createBoss_fields cfg shouldSpawnBoss_def)
      from True have nb: "\<not> bossSpawned (fst s1)" by (simp add: shouldSpawnBoss_def)
      from True flag have f': "bossSpawned sp'" by simp
      have a: "\<forall>ev \<in> set tail. k' < beWave ev" using t1 f' by blast
      have c: "bossSpawned sp \<longrightarrow> k < k'"
        using nb flag1 kk by (simp split: if_splits)
      have run': "spawnerRun sp w k (call # calls) = ev0 # tail"
        unfolding run heads ev0_def using True by simp
      have "\<forall>ev \<in> set (ev0 # tail).
              bossEventOk (esConfig sp) ev \<and> k \<le> beWave ev
              \<and> (bossSpawned sp \<longrightarrow> k < beWave ev)"
      proof
        fix ev assume "ev \<in> set (ev0 # tail)"
        then consider "ev = ev0" | "ev \<in> set tail" by auto
        then show "bossEventOk (esConfig sp) ev \<and> k \<le> beWave ev
                    \<and> (bossSpawned sp \<longrightarrow> k < beWave ev)"
        proof cases
          case 1
          then show ?thesis using ok w0 b c by simp
        next
          case 2
          with t1 a have "bossEventOk (esConfig sp) ev" "k' < beWave ev" by blast+
          with b show ?thesis by simp
        qed
      qed
      moreover have "distinct (map beWave (ev0 # tail))"
        using t2 a w0 by auto
      ultimately show ?thesis unfolding run' by blast
    next
      case False
      have run': "spawnerRun sp w k (call # calls) = tail"
        unfolding run heads using False by simp
      have c: "bossSpawned sp \<longrightarrow> (k < k' \<or> bossSpawned sp')"
        using flag flag1 kk by (simp split: if_splits)
      have "\<forall>ev \<in> set tail.
              bossEventOk (esConfig sp) ev \<and> k \<le> beWave ev
              \<and> (bossSpawned sp \<longrightarrow> k < beWave ev)"
      proof
        fix ev assume m: "ev \<in> set tail"
        with t1 have e: "bossEventOk (esConfig sp) ev" "k' \<le> beWave ev"
          "bossSpawned sp' \<longrightarrow> k' < beWave ev" by blast+
        from e(2) b have "k \<le> beWave ev" by linarith
        moreover have "bossSpawned sp \<longrightarrow> k < beWave ev"
          using c e(2,3) b by linarith
        ultimately show "bossEventOk (esConfig sp) ev \<and> k \<le> beWave ev
                          \<and> (bossSpawned sp \<longrightarrow> k < beWave ev)"
          using e(1) by blast
      qed
      then show ?thesis unfolding run' using t2 by simp
    qed
  next
    case (SetDifficulty name)
    from Cons.IH [of "setDifficulty sp name" w k] show ?thesis
      unfolding SetDifficulty by (simp add: setDifficulty_frame)
  next
    case Reset
    let ?r = "EnemySpawner_reset sp w"
    from Cons.IH [of "fst ?r" "snd ?r" "Suc k"] have
      "\<forall>ev \<in> set (spawnerRun (fst ?r) (snd ?r) (Suc k) calls).
         bossEventOk (esConfig sp) ev \<and> Suc k \<le> beWave ev"
      and "distinct (map beWave (spawnerRun (fst ?r) (snd ?r) (Suc k) calls))"
      unfolding reset_frame by blast+
    then show ?thesis
      unfolding Reset by (auto simp add: split_def Let_def)
  qed
qed

text \<open>
  Claim C6. In every run of the enemy spawner (any sequence of \<open>update\<close>,
  \<open>setDifficulty\<close> and \<open>reset\<close> calls on a new spawner, and likewise any
  continuation from a later spawner), every boss is created while the wave number is
  divisible by 5 and after at least 80% of the wave's quota has been spawned, has the
  circular attack pattern and starts at \<open>x = screenWidth / 2\<close>, \<open>y < 0\<close>; and no
  two bosses are created in the same wave.
\<close>

theorem C6_boss_cadence:
  "distinct (map beWave (spawnerRun (fst (EnemySpawner_new cfg w0))
                           (snd (EnemySpawner_new cfg w0)) 0 calls))
   \<and> (\<forall>ev \<in> set (spawnerRun (fst (EnemySpawner_new cfg w0))
                     (snd (EnemySpawner_new cfg w0)) 0 calls). bossEventOk cfg ev)
   \<and> distinct (map beWave (spawnerRun sp w k calls))
   \<and> (\<forall>ev \<in> set (spawnerRun sp w k calls).
         bossEventOk (esConfig sp) ev \<and> (bossSpawned sp \<longrightarrow> beWave ev \<noteq> k))"
proof -
  have c: "esConfig (fst (EnemySpawner_new cfg w0)) = cfg"
    by (simp add: EnemySpawner_new_def split_def Let_def)
  from spawnerRun_invariant [of "fst (EnemySpawner_new cfg w0)"
      "snd (EnemySpawner_new cfg w0)" 0 calls]
  have "distinct (map beWave (spawnerRun (fst (EnemySpawner_new cfg w0))
                           (snd (EnemySpawner_new cfg w0)) 0 calls))"
    and "\<forall>ev \<in> set (spawnerRun (fst (EnemySpawner_new cfg w0))
                     (snd (EnemySpawner_new cfg w0)) 0 calls). bossEventOk cfg ev"
    unfolding c by blast+
  moreover from spawnerRun_invariant [of sp w k calls]
  have "distinct (map beWave (spawnerRun sp w k calls))"
    and "\<forall>ev \<in> set (spawnerRun sp w k calls).
         bossEventOk (esConfig sp) ev \<and> (bossSpawned sp \<longrightarrow> beWave ev \<noteq> k)"
    by (blast, fastforce)
  ultimately show ?thesis by blast
qed

text \<open>
  A spawner in wave 5 with four of its five enemies spawned: the next update creates the
  boss.
\<close>

lemma spawnerRun_one_update:
  "map beWaveNumber (spawnerRun sp w k [Update gs dt])
     = (if shouldSpawnBoss (fst (waveStep sp gs (fst (Date_now w)) (snd (Date_now w)))) gs
        then [waveNumber (fst (waveStep sp gs (fst (Date_now w)) (snd (Date_now w))))]
        else [])"
  by (simp add: split_def Let_def update_bosses)

theorem C6_boss_cadence_witness:
  "map (\<lambda>ev. (bossEventOk (GAME_CONFIG 400 800) ev, beWaveNumber ev))
     (spawnerRun ((enemySpawner (sampleEngine [] PLAYING))
                    \<lparr>waveNumber := 5, enemiesInCurrentWave := 4\<rparr>)
        (steadyWorld 0 0) 0 [Update (sampleState [] []) 16])
   = [(True, 5)]"
proof -
  define sp where
    "sp = (enemySpawner (sampleEngine [] PLAYING))\<lparr>waveNumber := 5, enemiesInCurrentWave := 4\<rparr>"
  define gs where "gs = sampleState [] []"
  define w where "w = steadyWorld 0 0"
  define log where "log = spawnerRun sp w 0 [Update gs 16]"
  have f: "waveNumber sp = 5" "enemiesInCurrentWave sp = 4" "maxEnemiesPerWave sp = 5"
    "timeBetweenWaves sp = 5000" "lastWaveTime sp = 0" "\<not> bossSpawned sp"
    "esConfig sp = GAME_CONFIG 400 800"
    unfolding sp_def
    by (simp_all add: sampleEngine_def GameEngine_new_def EnemySpawner_new_def world_defs
        Let_def split_def)
  have nd: "\<not> newWaveDue sp gs (fst (Date_now w))"
    by (simp add: newWaveDue_def f)
  have s1: "fst (waveStep sp gs (fst (Date_now w)) (snd (Date_now w))) = sp"
    using nd by (simp only: waveStep_fst if_False)
  have sb: "shouldSpawnBoss sp gs"
    by (simp add: shouldSpawnBoss_def f)
  have m: "map beWaveNumber log = [5]"
    unfolding log_def spawnerRun_one_update s1 by (simp only: sb f(1) if_True)
  then obtain ev where e: "log = [ev]" "beWaveNumber ev = 5"
    by (auto simp: map_eq_Cons_conv)
  from C6_boss_cadence [where sp = sp and w = w and k = 0 and calls = "[Update gs 16]"]
  have "\<forall>ev \<in> set log. bossEventOk (GAME_CONFIG 400 800) ev"
    unfolding f(7) log_def by blast
  with e have "map (\<lambda>ev. (bossEventOk (GAME_CONFIG 400 800) ev, beWaveNumber ev)) log
                 = [(True, 5)]"
    by simp
  then show ?thesis
    unfolding log_def sp_def gs_def w_def .
qed

section \<open>Reachable engines\<close>

subsection \<open>The nested loops\<close>

lemma forEachInner_fst:
  assumes "\<And>a b s. P a \<Longrightarrow> P (fst (body a b s))" and "P a"
  shows "P (fst (forEachInner body a bs s))"
  using assms(2)
proof (induction bs arbitrary: a s)
  case Nil
  then show ?case by simp
next
  case (Cons b bs)
  from Cons.prems have "P (fst (body a b s))" by (rule assms(1))
  from Cons.IH [OF this] show ?case by (simp add: split_def Let_def)
qed

lemma forEachInner_snd:
  assumes "\<And>a b s. Q b \<Longrightarrow> Q (fst (snd (body a b s)))" and "list_all Q bs"
  shows "list_all Q (fst (snd (forEachInner body a bs s)))"
  using assms(2)
proof (induction bs arbitrary: a s)
  case Nil
  then show ?case by simp
next
  case (Cons b bs)
  then have "Q (fst (snd (body a b s)))" and "list_all Q bs" by (simp_all add: assms(1))
  with Cons.IH show ?case by (simp add: split_def Let_def)
qed

lemma forEachOuter_fst:
  assumes "\<And>a bs s. P a \<Longrightarrow> P (fst (row a bs s))" and "list_all P as"
  shows "list_all P (fst (forEachOuter row as bs s))"
  using assms(2)
proof (induction as arbitrary: bs s)
  case Nil
  then show ?case by simp
next
  case (Cons a as)
  then have "P (fst (row a bs s))" and "list_all P as" by (simp_all add: assms(1))
  with Cons.IH show ?case by (simp add: split_def Let_def)
qed

lemma forEachOuter_snd:
  assumes "\<And>a bs s. list_all Q bs \<Longrightarrow> list_all Q (fst (snd (row a bs s)))"
    and "list_all Q bs"
  shows "list_all Q (fst (snd (forEachOuter row as bs s)))"
  using assms(2)
proof (induction as arbitrary: bs s)
  case Nil
  then show ?case by simp
next
  case (Cons a as)
  from Cons.prems have "list_all Q (fst (snd (row a bs s)))" by (rule assms(1))
  from Cons.IH [OF this] show ?case by (simp add: split_def Let_def)
qed



lemma innerCalls_last:
  assumes "bs \<noteq> []"
  shows "(case last (innerCalls body a bs s) of (a', b', s') \<Rightarrow>
            (fst (body a' b' s'), snd (snd (body a' b' s'))))
         = (fst (forEachInner body a bs s), snd (snd (forEachInner body a bs s)))"
  using assms
proof (induction bs arbitrary: a s)
  case Nil
  then show ?case by simp
next
  case (Cons b bs)
  show ?case
  proof (cases "bs = []")
    case True
    then show ?thesis by (simp add: split_def Let_def)
  next
    case False
    then have n: "innerCalls body (fst (body a b s)) bs (snd (snd (body a b s))) \<noteq> []"
      by (cases bs) (simp_all add: split_def Let_def)
    from Cons.IH [OF False, of "fst (body a b s)" "snd (snd (body a b s))"] n
    show ?thesis by (simp add: split_def Let_def)
  qed
qed


subsection \<open>The players of a reachable engine\<close>

lemma whole_positive: "x \<in> \<int> \<Longrightarrow> 0 < x \<Longrightarrow> 1 \<le> (x::real)"
proof -
  assume "x \<in> \<int>" and p: "0 < x"
  then obtain k :: int where k: "x = of_int k" by (auto elim: Ints_cases)
  with p have "0 < k" by simp
  then have "1 \<le> k" by simp
  with k show ?thesis by simp
qed

lemma playerOk_life_rule:
  assumes "playerOk p"
  shows "playerOk (if h \<le> 0
                   then (if lives p - 1 \<le> 0
                         then p\<lparr>health := m, lives := lives p - 1, isActive := False\<rparr>
                         else p\<lparr>health := m, lives := lives p - 1\<rparr>)
                   else p\<lparr>health := h\<rparr>)"
proof -
  from assms have w: "lives p - 1 \<in> \<int>" by (simp add: playerOk_def)
  have "1 \<le> lives p - 1" if "\<not> lives p - 1 \<le> 0"
    using whole_positive [OF w] that by simp
  with assms w show ?thesis by (simp add: playerOk_def)
qed

lemma playerOk_contact: "playerOk p \<Longrightarrow> playerOk (fst (handlePlayerEnemyCollision p e st))"
  unfolding handlePlayerEnemy_player by (rule playerOk_life_rule)

lemma playerOk_bullet:
  "playerOk p \<Longrightarrow> playerOk (fst (snd (handleBulletPlayerCollision b p st)))"
  unfolding handleBulletPlayer_player by (rule playerOk_life_rule)

lemma playerOk_powerUp: "playerOk p \<Longrightarrow> playerOk (fst (handlePlayerPowerUpCollision p u st))"
  by (simp add: playerOk_def handlePlayerPowerUpCollision_def applyPowerUp_def Let_def
      split: PowerUpType.split)

lemma playerOk_bodies:
  "playerOk p \<Longrightarrow> playerOk (fst (playerEnemyBody p e st))"
  "playerOk p \<Longrightarrow> playerOk (fst (snd (bulletPlayerBody b p st)))"
  "playerOk p \<Longrightarrow> playerOk (fst (playerPowerUpBody p u st))"
  by (simp_all add: playerEnemyBody_def bulletPlayerBody_def playerPowerUpBody_def
      playerOk_contact playerOk_bullet playerOk_powerUp)

lemma bulletPlayerRow_ok:
  "list_all playerOk ps \<Longrightarrow> list_all playerOk (fst (snd (bulletPlayerRow b ps st)))"
  by (simp add: bulletPlayerRow_def forEachInner_snd [where Q = playerOk] playerOk_bodies)

lemma playerOk_updatePlayer: "playerOk p \<Longrightarrow> playerOk (updatePlayer cfg ds p)"
  by (simp add: playerOk_def updatePlayer_def updateGameObject_def constrainToScreen_def
      constrainX_def constrainY_def Let_def)

lemma handleCollisions_players_ok:
  assumes "list_all playerOk (players (gameState eng))"
  shows "list_all playerOk (players (gameState (fst (handleCollisions eng w))))"
proof -
  define gs where "gs = gameState eng"
  define r1 where
    "r1 = forEachOuter (forEachInner playerEnemyBody) (players gs) (enemies gs) (eng, w)"
  define r2 where "r2 = forEachOuter bulletEnemyRow (bullets gs) (fst (snd r1)) (snd (snd r1))"
  define r3 where "r3 = forEachOuter bulletPlayerRow (fst r2) (fst r1) (snd (snd r2))"
  define r4 where
    "r4 = forEachOuter (forEachInner playerPowerUpBody) (fst (snd r3)) (gsPowerUps gs)
            (snd (snd r3))"
  have p: "players (gameState (fst (handleCollisions eng w))) = fst r4"
    by (simp add: handleCollisions_def Let_def split_def r4_def r3_def r2_def r1_def gs_def)
  have 1: "list_all playerOk (fst r1)"
    unfolding r1_def
    by (rule forEachOuter_fst [where P = playerOk])
       (simp_all add: forEachInner_fst [where P = playerOk] playerOk_bodies assms gs_def)
  have 3: "list_all playerOk (fst (snd r3))"
    unfolding r3_def
    by (rule forEachOuter_snd [where Q = playerOk]) (simp_all add: bulletPlayerRow_ok 1)
  have 4: "list_all playerOk (fst r4)"
    unfolding r4_def
    by (rule forEachOuter_fst [where P = playerOk])
       (simp_all add: forEachInner_fst [where P = playerOk] playerOk_bodies 3)
  with p show ?thesis by simp
qed

lemma spawner_updates_keep_players:
  "players (gs\<lparr>enemies := es\<rparr>) = players gs" "players (gs\<lparr>gsPowerUps := us\<rparr>) = players gs"
  by simp_all

lemma collisionStage_players:
  "\<exists>ds. players (gameState (fst (collisionStage eng w)))
           = map (updatePlayer (config eng) ds) (players (gameState eng))"
  by (auto simp add: collisionStage_def Let_def split_def physics_players)

lemma collisionStage_config: "config (fst (collisionStage eng w)) = config eng"
  by (simp add: collisionStage_def Let_def split_def)

lemma collisionStage_players_ok:
  assumes "list_all playerOk (players (gameState eng))"
  shows "list_all playerOk (players (gameState (fst (collisionStage eng w))))"
proof -
  obtain ds where "players (gameState (fst (collisionStage eng w)))
           = map (updatePlayer (config eng) ds) (players (gameState eng))"
    using collisionStage_players by blast
  with assms show ?thesis
    by (simp add: list_all_iff playerOk_updatePlayer)
qed

text \<open>\<open>update\<close> is its first part followed by the five passes that end the tick.\<close>

lemma GameEngine_update_stages:
  "GameEngine_update eng w =
     (let (eng5, deltaTime, w5) = collisionStage eng w;
          (eng6, w6) = handleCollisions eng5 w5;
          eng9 = checkGameOverConditions
                   (updateExplosions (cleanupInactiveObjects eng6) deltaTime)
      in (eng9, gameState eng9, w6))"
  by (simp add: GameEngine_update_def collisionStage_def Let_def split_def)

lemma update_players_ok:
  assumes "list_all playerOk (players (gameState eng))"
  shows "list_all playerOk (players (gameState (fst (GameEngine_update eng w))))"
proof -
  let ?c = "collisionStage eng w"
  let ?h = "handleCollisions (fst ?c) (snd (snd ?c))"
  have "players (gameState (fst (GameEngine_update eng w)))
          = filter isActive (players (gameState (fst ?h)))"
    by (simp add: GameEngine_update_stages Let_def split_def checkGameOver_collections
        updateExplosions_collections cleanup_collections)
  moreover have "list_all playerOk (players (gameState (fst ?h)))"
    by (intro handleCollisions_players_ok collisionStage_players_ok assms)
  ultimately show ?thesis by (simp add: list_all_iff)
qed

lemma updateFirst_all: "(\<And>x. P x \<Longrightarrow> P (f x)) \<Longrightarrow> list_all P xs \<Longrightarrow> list_all P (updateFirst R f xs)"
  by (induction xs) simp_all

text \<open>
  Every player of a reachable engine has a whole number of lives, at least one when
  active, and the size 40 by 40.
\<close>

lemma reachable_players_ok:
  "reachable eng \<Longrightarrow> list_all playerOk (players (gameState eng))"
proof (induction rule: reachable.induct)
  case (constructed cfg w)
  then show ?case
    by (simp add: GameEngine_new_def initialGameState_def Let_def split_def)
next
  case (added eng player)
  then show ?case by (simp add: addPlayer_def playerOk_def)
next
  case (removed eng pid)
  then show ?case by (simp add: removePlayer_def list_all_iff)
next
  case (moved eng pid pos)
  have "list_all playerOk (updateFirst (\<lambda>p. playerId p = pid) (\<lambda>p. p\<lparr>position := pos\<rparr>)
          (players (gameState eng)))"
    by (rule updateFirst_all) (simp_all add: playerOk_def moved.IH)
  with moved.IH show ?case
    by (simp add: updatePlayerPosition_def split: option.split)
next
  case (shot eng pid w)
  then show ?case
    by (simp add: playerShoot_def split_def Let_def split: option.split)
next
  case (started eng multiplayer frame w)
  then show ?case by (simp add: startGame_def startGameLoop_def split_def Let_def)
next
  case (paused eng)
  then show ?case by (simp add: pauseGame_def stopGameLoop_def split: option.split)
next
  case (resumed eng frame w)
  then show ?case by (simp add: resumeGame_def startGameLoop_def split_def Let_def)
next
  case (stopped eng)
  then show ?case by (simp add: stopGame_def stopGameLoop_def split: option.split)
next
  case (disposed eng)
  then show ?case by (simp add: dispose_def stopGameLoop_def split: option.split)
next
  case (frame eng frame w)
  from update_players_ok [OF frame.IH, of w] frame.IH show ?case
    by (simp add: gameLoop_def split_def Let_def)
qed

subsection \<open>Hits on players\<close>





subsection \<open>A hit in a game in progress\<close>








section \<open>Containment of the players\<close>

lemma updatePlayer_frame:
  "isActive (updatePlayer cfg ds p) = isActive p"
  "extent (updatePlayer cfg ds p) = extent p"
  by (simp_all add: updatePlayer_def constrainToScreen_frame updateGameObject_frame)

lemma updatePlayer_contained:
  assumes "isActive p"
  shows "width (extent p) \<le> screenWidth cfg \<Longrightarrow> inPlayfieldX cfg (updatePlayer cfg ds p)"
    and "height (extent p) \<le> screenHeight cfg \<Longrightarrow> inPlayfieldY cfg (updatePlayer cfg ds p)"
  using assms
  by (simp_all add: updatePlayer_def constrainToScreen_inPlayfield updateGameObject_frame)

lemma constrainToScreen_stops:
  "clampsX cfg obj \<Longrightarrow> vx (velocity (constrainToScreen cfg obj)) = 0"
  "clampsY cfg obj \<Longrightarrow> vy (velocity (constrainToScreen cfg obj)) = 0"
  by (auto simp: clampsX_def clampsY_def constrainToScreen_def constrainX_def constrainY_def
      Let_def)

lemma updatePlayer_stops:
  assumes "isActive p"
  shows "clampsX cfg (updateGameObject p ds) \<Longrightarrow> vx (velocity (updatePlayer cfg ds p)) = 0"
    and "clampsY cfg (updateGameObject p ds) \<Longrightarrow> vy (velocity (updatePlayer cfg ds p)) = 0"
  using assms by (simp_all add: updatePlayer_def constrainToScreen_stops)

text \<open>
  Claim C7. After a call of \<open>PhysicsEngine.update\<close>, on any game state, every player
  keeps its activity and size, and every active player lies between the two sides of the
  playfield rectangle on each axis on which the player is not larger than the screen,
  and has velocity zero along each axis on which it was clamped. In the call that a tick
  of a reachable engine makes, on a screen of 40 by 40 at least, every active player
  lies within the playfield rectangle
  \<open>[halfWidth, screenWidth - halfWidth] \<times> [halfHeight, screenHeight - halfHeight]\<close>.
\<close>

theorem C7_players_contained:
  "list_all2
     (\<lambda>p p'. isActive p' = isActive p \<and> extent p' = extent p
        \<and> (isActive p \<longrightarrow>
              (width (extent p) \<le> screenWidth cfg \<longrightarrow> inPlayfieldX cfg p')
            \<and> (height (extent p) \<le> screenHeight cfg \<longrightarrow> inPlayfieldY cfg p')
            \<and> (clampsX cfg (updateGameObject p (dt / 1000)) \<longrightarrow> vx (velocity p') = 0)
            \<and> (clampsY cfg (updateGameObject p (dt / 1000)) \<longrightarrow> vy (velocity p') = 0)))
     (players gs) (players (fst (PhysicsEngine_update cfg gs dt w)))
   \<and> (reachable eng \<and> 40 \<le> screenWidth (config eng) \<and> 40 \<le> screenHeight (config eng)
        \<longrightarrow> (\<forall>p' \<in> set (players (fst (PhysicsEngine_update (config eng)
                                      ((gameState eng)\<lparr>timeElapsed := t\<rparr>) dt' w'))).
               isActive p' \<longrightarrow> inPlayfield (config eng) p'))"
proof (intro conjI impI ballI)
  show "list_all2
     (\<lambda>p p'. isActive p' = isActive p \<and> extent p' = extent p
        \<and> (isActive p \<longrightarrow>
              (width (extent p) \<le> screenWidth cfg \<longrightarrow> inPlayfieldX cfg p')
            \<and> (height (extent p) \<le> screenHeight cfg \<longrightarrow> inPlayfieldY cfg p')
            \<and> (clampsX cfg (updateGameObject p (dt / 1000)) \<longrightarrow> vx (velocity p') = 0)
            \<and> (clampsY cfg (updateGameObject p (dt / 1000)) \<longrightarrow> vy (velocity p') = 0)))
     (players gs) (players (fst (PhysicsEngine_update cfg gs dt w)))"
    unfolding physics_players list_all2_map2
    by (rule list_all2_refl)
       (simp add: updatePlayer_frame updatePlayer_contained updatePlayer_stops)
next
  fix p'
  assume a: "reachable eng \<and> 40 \<le> screenWidth (config eng) \<and> 40 \<le> screenHeight (config eng)"
    and p': "p' \<in> set (players (fst (PhysicsEngine_update (config eng)
                                      ((gameState eng)\<lparr>timeElapsed := t\<rparr>) dt' w')))"
    and act: "isActive p'"
  from p' obtain p where p: "p \<in> set (players (gameState eng))"
    and e: "p' = updatePlayer (config eng) (dt' / 1000) p"
    unfolding physics_players by auto
  from a have "list_all playerOk (players (gameState eng))"
    by (intro reachable_players_ok) simp
  with p have "extent p = \<lparr>width = 40, height = 40\<rparr>"
    by (simp add: list_all_iff playerOk_def)
  moreover from act e have "isActive p" by (simp add: updatePlayer_frame)
  ultimately show "inPlayfield (config eng) p'"
    unfolding e inPlayfield_axes using a
    by (simp add: updatePlayer_contained)
qed
lemma corneredGame_reachable: "reachable corneredGame"
  unfolding corneredGame_def
  by (intro reachable.moved reachable.added reachable.constructed)
     (simp_all add: localPlayer_def)

lemma corneredGame_fields:
  "players (gameState corneredGame) = [localPlayer \<lparr>px = 10, py = 700\<rparr>]"
  "config corneredGame = GAME_CONFIG 400 800"
  by (simp_all add: corneredGame_def updatePlayerPosition_def addPlayer_def GameEngine_new_def
      EnemySpawner_new_def PowerUpSpawner_new_def initialGameState_def world_defs Let_def
      localPlayer_def)

lemma flyingPlayer_step:
  "px (position (updateGameObject flyingPlayer (16 / 1000))) = 17.8"
  "px (position (updatePlayer (GAME_CONFIG 400 800) (16 / 1000) flyingPlayer)) = 20"
  by (simp_all add: flyingPlayer_def localPlayer_def updatePlayer_def updateGameObject_def
      constrainToScreen_def constrainX_def constrainY_def GAME_CONFIG_def Let_def)

lemma corneredPlayer_step:
  "position (updatePlayer (GAME_CONFIG 400 800) (16 / 1000) (localPlayer \<lparr>px = 10, py = 700\<rparr>))
     = \<lparr>px = 20, py = 700\<rparr>"
  by (simp add: localPlayer_def updatePlayer_def updateGameObject_def
      constrainToScreen_def constrainX_def constrainY_def GAME_CONFIG_def Let_def)

text \<open>
  A step of 16 milliseconds. The flying player would reach \<open>x = 17.8\<close>, is clamped to
  \<open>x = 20\<close> and stopped; the player sent to \<open>x = 10\<close> is back in the playfield.
\<close>

theorem C7_clamped_player_witness:
  "map (\<lambda>p'. (px (position p'), vx (velocity p'), inPlayfieldX (GAME_CONFIG 400 800) p',
              inPlayfieldY (GAME_CONFIG 400 800) p'))
     (players (fst (PhysicsEngine_update (GAME_CONFIG 400 800)
                      (gameState (sampleEngine [flyingPlayer] PLAYING)) 16 (steadyWorld 16 0))))
     = [(20, 0, True, True)]
   \<and> reachable corneredGame
   \<and> map (\<lambda>p'. (isActive p', position p', inPlayfield (config corneredGame) p'))
       (players (fst (PhysicsEngine_update (config corneredGame)
                        ((gameState corneredGame)\<lparr>timeElapsed := 16\<rparr>) 16 (steadyWorld 16 0))))
     = [(True, \<lparr>px = 20, py = 700\<rparr>, True)]"
proof -
  define cfg where "cfg = GAME_CONFIG 400 800"
  define ps1 where
    "ps1 = players (fst (PhysicsEngine_update cfg
                      (gameState (sampleEngine [flyingPlayer] PLAYING)) 16 (steadyWorld 16 0)))"
  define ps2 where
    "ps2 = players (fst (PhysicsEngine_update (config corneredGame)
                        ((gameState corneredGame)\<lparr>timeElapsed := 16\<rparr>) 16 (steadyWorld 16 0)))"
  note inst = C7_players_contained
      [where cfg = cfg and gs = "gameState (sampleEngine [flyingPlayer] PLAYING)"
         and dt = 16 and w = "steadyWorld 16 0" and eng = corneredGame and t = 16
         and dt' = 16 and w' = "steadyWorld 16 0"]
  have big: "40 \<le> screenWidth (config corneredGame)" "40 \<le> screenHeight (config corneredGame)"
    by (simp_all add: corneredGame_fields GAME_CONFIG_def)
  from inst have "list_all2
     (\<lambda>p p'. isActive p' = isActive p \<and> extent p' = extent p
        \<and> (isActive p \<longrightarrow>
              (width (extent p) \<le> screenWidth cfg \<longrightarrow> inPlayfieldX cfg p')
            \<and> (height (extent p) \<le> screenHeight cfg \<longrightarrow> inPlayfieldY cfg p')
            \<and> (clampsX cfg (updateGameObject p (16 / 1000)) \<longrightarrow> vx (velocity p') = 0)
            \<and> (clampsY cfg (updateGameObject p (16 / 1000)) \<longrightarrow> vy (velocity p') = 0)))
     [flyingPlayer] ps1"
    unfolding ps1_def by simp
  then obtain p1 where p1: "ps1 = [p1]"
    and r: "isActive flyingPlayer \<longrightarrow>
              (width (extent flyingPlayer) \<le> screenWidth cfg \<longrightarrow> inPlayfieldX cfg p1)
            \<and> (height (extent flyingPlayer) \<le> screenHeight cfg \<longrightarrow> inPlayfieldY cfg p1)
            \<and> (clampsX cfg (updateGameObject flyingPlayer (16 / 1000))
                 \<longrightarrow> vx (velocity p1) = 0)"
    by (auto simp: list_all2_Cons1)
  have f: "isActive flyingPlayer" "width (extent flyingPlayer) \<le> screenWidth cfg"
    "height (extent flyingPlayer) \<le> screenHeight cfg"
    by (simp_all add: flyingPlayer_def localPlayer_def cfg_def GAME_CONFIG_def)
  have c: "clampsX cfg (updateGameObject flyingPlayer (16 / 1000))"
    unfolding clampsX_def flyingPlayer_step updateGameObject_frame
    by (simp add: flyingPlayer_def localPlayer_def)
  from r f c have q: "inPlayfieldX cfg p1" "inPlayfieldY cfg p1" "vx (velocity p1) = 0"
    by simp_all
  define q1 where "q1 = updatePlayer (GAME_CONFIG 400 800) (16 / 1000) flyingPlayer"
  have "px (position q1) = 20" unfolding q1_def by (rule flyingPlayer_step(2))
  moreover have "ps1 = [q1]"
    unfolding ps1_def physics_players q1_def cfg_def by simp
  ultimately have "px (position p1) = 20" using p1 by simp
  with p1 q have 1: "map (\<lambda>p'. (px (position p'), vx (velocity p'), inPlayfieldX cfg p',
              inPlayfieldY cfg p')) ps1 = [(20, 0, True, True)]"
    by simp
  from inst corneredGame_reachable big
  have all: "\<forall>p' \<in> set ps2. isActive p' \<longrightarrow> inPlayfield (config corneredGame) p'"
    unfolding ps2_def by blast
  define q2 where
    "q2 = updatePlayer (GAME_CONFIG 400 800) (16 / 1000) (localPlayer \<lparr>px = 10, py = 700\<rparr>)"
  have pos: "position q2 = \<lparr>px = 20, py = 700\<rparr>"
    unfolding q2_def by (rule corneredPlayer_step)
  have e: "ps2 = [q2]"
    unfolding ps2_def physics_players q2_def by (simp add: corneredGame_fields)
  have act: "isActive q2"
    unfolding q2_def by (simp add: updatePlayer_frame localPlayer_def)
  with all e have "inPlayfield (config corneredGame) q2" by simp
  with e act pos
  have 2: "map (\<lambda>p'. (isActive p', position p', inPlayfield (config corneredGame) p')) ps2
           = [(True, \<lparr>px = 20, py = 700\<rparr>, True)]"
    by simp
  from 1 corneredGame_reachable 2 show ?thesis
    unfolding ps1_def ps2_def cfg_def by simp
qed

end
